theory Spec2Isabelle
  imports Complex_Main "HOL-Library.Word"
begin

section \<open>The vertex-count probe of \<^verbatim>\<open>src/app/app.component.ts\<close>\<close>

text \<open>
  The component \<^verbatim>\<open>AppComponent\<close> renders a scene once per animation frame, measures
  how long the render call took, and grows a test mesh by 1000 vertices per frame until
  the rolling average of the frame times exceeds 16.67 ms.

  The embedding is shallow: the fields of the class are a record, every method is a
  function from the record to the updated record, and the two things a frame reads from
  its environment are inputs: the measured duration \<^verbatim>\<open>endTime - startTime\<close> of the
  frame's render call, and the values returned by \<^verbatim>\<open>Math.random()\<close>.

  Numbers. A JavaScript number is an IEEE-754 double. The model takes the finite ones as
  reals (arithmetic is exact, rounding is not modelled) and keeps the three special
  values that a division can produce, so that \<^verbatim>\<open>0 / 0\<close> is \<open>NaN\<close> as in the
  source and not HOL's \<open>0\<close>. Signed zeros are not distinguished. The vertex counter
  is a natural number: a double holds every multiple of 1000 below \<open>2^53\<close> exactly.
\<close>

subsection \<open>Numbers\<close>

datatype jsnum = NaN | PosInf | NegInf | Fin real

text \<open>The operator \<^verbatim>\<open>/\<close> (a zero divisor is taken as \<open>+0\<close>).\<close>

fun js_div :: "jsnum \<Rightarrow> jsnum \<Rightarrow> jsnum" where
  "js_div NaN _ = NaN"
| "js_div _ NaN = NaN"
| "js_div (Fin a) (Fin b) =
     (if b = 0 then (if a = 0 then NaN else if 0 < a then PosInf else NegInf)
      else Fin (a / b))"
| "js_div (Fin a) PosInf = Fin 0"
| "js_div (Fin a) NegInf = Fin 0"
| "js_div PosInf (Fin b) = (if 0 \<le> b then PosInf else NegInf)"
| "js_div NegInf (Fin b) = (if 0 \<le> b then NegInf else PosInf)"
| "js_div PosInf PosInf = NaN"
| "js_div PosInf NegInf = NaN"
| "js_div NegInf PosInf = NaN"
| "js_div NegInf NegInf = NaN"

text \<open>The operator \<^verbatim>\<open>>\<close>: every comparison with \<open>NaN\<close> is false.\<close>

fun js_gt :: "jsnum \<Rightarrow> jsnum \<Rightarrow> bool" where
  "js_gt (Fin a) (Fin b) = (b < a)"
| "js_gt PosInf (Fin b) = True"
| "js_gt PosInf NegInf = True"
| "js_gt (Fin a) NegInf = True"
| "js_gt _ _ = False"

text \<open>
  \<^verbatim>\<open>xs.reduce((a, b) => a + b, 0) / xs.length\<close>, the expression of lines 155-157 and
  243-244. It contains no \<^verbatim>\<open>throw\<close>: on the empty array the sum is the initial
  value 0 and the length is 0.
\<close>

definition average :: "real list \<Rightarrow> jsnum" where
  "average xs = js_div (Fin (foldl (+) 0 xs)) (Fin (real (length xs)))"

text \<open>
  The same expression seen as the mean operation of a window, with the outcome made
  explicit: a returned number, or a raised error. \<open>InsufficientData\<close> is the error the
  specification names; the source has no statement that raises it.
\<close>

datatype error = InsufficientData

definition window_mean :: "real list \<Rightarrow> error + jsnum" where
  "window_mean xs = Inr (average xs)"

text \<open>
  Lines 238-241: \<^verbatim>\<open>frameTimes.push(frameTime); if (frameTimes.length > 60)
  frameTimes.shift()\<close>.
\<close>

definition pushFrameTime :: "real list \<Rightarrow> real \<Rightarrow> real list" where
  "pushFrameTime xs t =
     (let ys = xs @ [t] in if 60 < length ys then tl ys else ys)"

definition maxFrameTime :: jsnum where
  "maxFrameTime = Fin 16.67"

subsection \<open>Strings\<close>

text \<open>
  A string is a list of bytes. \<^verbatim>\<open>Array.prototype.join('\n')\<close> puts a line feed between
  consecutive elements and gives the empty string on the empty array.
\<close>

definition nl :: char where
  "nl = CHR 0x0A"

fun join_nl :: "string list \<Rightarrow> string" where
  "join_nl [] = []"
| "join_nl [x] = x"
| "join_nl (x # y # ys) = x @ nl # join_nl (y # ys)"

subsection \<open>Meshes and the scene\<close>

text \<open>
  The three typed arrays of \<^verbatim>\<open>createTestMesh\<close>. The positions are finite numbers;
  a normal is the result of a division; an index is an element of a
  \<^verbatim>\<open>Uint32Array\<close>. The elements of a \<^verbatim>\<open>Float32Array\<close> are taken as exact, like
  every other number.
\<close>

record buffers =
  positions :: "real list"
  normals :: "jsnum list"
  indices :: "32 word list"

datatype geometry = BoxGeometry real real real | BufferGeometry buffers

record material =
  color :: nat
  wireframe :: bool

text \<open>
  An object of class \<^verbatim>\<open>THREE.Mesh\<close>. Objects are compared by identity in the source
  (\<^verbatim>\<open>scene.remove(mesh)\<close>); \<open>mesh_id\<close> is that identity, a fresh number for every
  \<^verbatim>\<open>new THREE.Mesh\<close>.
\<close>

record mesh =
  mesh_id :: nat
  geometry :: geometry
  material :: material
  position_x :: real

datatype object3d = AmbientLight | DirectionalLight | MeshObject mesh

text \<open>
  \<^verbatim>\<open>Object3D.add\<close> detaches the object from its parent and appends it to the children;
  \<^verbatim>\<open>Object3D.remove\<close> splices the object out of the children when it is there.
\<close>

definition scene_add :: "object3d \<Rightarrow> object3d list \<Rightarrow> object3d list" where
  "scene_add x children = remove1 x children @ [x]"

definition scene_remove :: "object3d \<Rightarrow> object3d list \<Rightarrow> object3d list" where
  "scene_remove x children = remove1 x children"

subsection \<open>The component\<close>

text \<open>
  The fields of \<^verbatim>\<open>AppComponent\<close> (lines 68-81; \<open>scene\<close> stands for the children of
  \<^verbatim>\<open>this.scene\<close>), followed by four fields that record effects on the environment:
  the number of calls of \<^verbatim>\<open>renderer.render\<close>, the meshes whose geometry and material
  were disposed (in order), the number of calls of \<^verbatim>\<open>Math.random\<close>, and the next
  object identity.
\<close>

record app =
  scene :: "object3d list"
  testMeshes :: "mesh list"
  currentVertexCount :: nat
  baselineFrameTime :: jsnum
  frameTimes :: "real list"
  isMeasuringBaseline :: bool
  isTestStopped :: bool
  baselineMeasurements :: "real list"
  logs :: "string list"
  statusText :: string
  renders :: nat
  disposed :: "mesh list"
  randomCalls :: nat
  nextId :: nat

text \<open>
  What the host provides: the number formatting of \<^verbatim>\<open>Number.prototype.toFixed\<close> and
  \<^verbatim>\<open>toLocaleString\<close> (which depends on the locale), and the sequence of values that
  the successive calls of \<^verbatim>\<open>Math.random()\<close> return.
\<close>

record host =
  toFixed :: "jsnum \<Rightarrow> nat \<Rightarrow> string"
  toLocaleString :: "nat \<Rightarrow> string"
  random :: "nat \<Rightarrow> real"

text \<open>Lines 101-105.\<close>

definition updateStatus :: "app \<Rightarrow> string \<Rightarrow> app" where
  "updateStatus s text =
     (let s1 = s\<lparr>logs := logs s @ [text]\<rparr>
      in s1\<lparr>statusText := join_nl (logs s1)\<rparr>)"

text \<open>
  Lines 177-198, the loop of \<^verbatim>\<open>createTestMesh\<close>. \<open>k\<close> is the number of calls of
  \<^verbatim>\<open>Math.random()\<close> made before the loop started: iteration \<open>i\<close> makes calls
  \<open>k + 2 i\<close> and \<open>k + 2 i + 1\<close>. A write to a typed array outside its range is
  ignored, as \<open>list_update\<close> does.
\<close>

function createTestMesh_loop ::
  "(nat \<Rightarrow> real) \<Rightarrow> nat \<Rightarrow> nat \<Rightarrow> nat \<Rightarrow> buffers \<Rightarrow> buffers" where
  "createTestMesh_loop rnd k vertexCount i b =
     (if i < vertexCount then
        (let theta = rnd (k + 2 * i) * pi * 2;
             phi = arccos (2 * rnd (k + 2 * i + 1) - 1);
             radius = 1;
             p1 = (positions b)[i * 3 := radius * sin phi * cos theta];
             p2 = p1[i * 3 + 1 := radius * sin phi * sin theta];
             p3 = p2[i * 3 + 2 := radius * cos phi];
             len = sqrt (p3 ! (i * 3) * p3 ! (i * 3)
                       + p3 ! (i * 3 + 1) * p3 ! (i * 3 + 1)
                       + p3 ! (i * 3 + 2) * p3 ! (i * 3 + 2));
             n1 = (normals b)[i * 3 := js_div (Fin (p3 ! (i * 3))) (Fin len)];
             n2 = n1[i * 3 + 1 := js_div (Fin (p3 ! (i * 3 + 1))) (Fin len)];
             n3 = n2[i * 3 + 2 := js_div (Fin (p3 ! (i * 3 + 2))) (Fin len)];
             ix = (indices b)[i := of_nat i]
         in createTestMesh_loop rnd k vertexCount (i + 1)
              \<lparr>positions = p3, normals = n3, indices = ix\<rparr>)
      else b)"
  by pat_completeness auto
termination
  by (relation "measure (\<lambda>(rnd, k, vertexCount, i, b). vertexCount - i)") auto

text \<open>Lines 171-198: the typed arrays are allocated filled with zeros, then the loop runs.\<close>

definition createTestMesh_buffers :: "(nat \<Rightarrow> real) \<Rightarrow> nat \<Rightarrow> nat \<Rightarrow> buffers" where
  "createTestMesh_buffers rnd k vertexCount =
     createTestMesh_loop rnd k vertexCount 0
       \<lparr>positions = replicate (vertexCount * 3) 0,
        normals = replicate (vertexCount * 3) (Fin 0),
        indices = replicate vertexCount 0\<rparr>"

text \<open>Lines 170-210. The result is the new mesh and the state with the effects recorded.\<close>

definition createTestMesh :: "host \<Rightarrow> app \<Rightarrow> nat \<Rightarrow> mesh \<times> app" where
  "createTestMesh h s vertexCount =
     (\<lparr>mesh_id = nextId s,
       geometry = BufferGeometry (createTestMesh_buffers (random h) (randomCalls s) vertexCount),
       material = \<lparr>color = 0xff0000, wireframe = True\<rparr>,
       position_x = 0\<rparr>,
      s\<lparr>randomCalls := randomCalls s + 2 * vertexCount, nextId := nextId s + 1\<rparr>)"

text \<open>Lines 273-278.\<close>

definition addTestMesh :: "host \<Rightarrow> app \<Rightarrow> app" where
  "addTestMesh h s =
     (case createTestMesh h s (currentVertexCount s) of
        (m, s1) \<Rightarrow>
          (let m1 = m\<lparr>position_x := 2\<rparr>
           in s1\<lparr>scene := scene_add (MeshObject m1) (scene s1),
                 testMeshes := testMeshes s1 @ [m1]\<rparr>))"

text \<open>
  Lines 212-224: \<^verbatim>\<open>pop\<close> takes the last mesh, which is removed from the scene and
  disposed, while more than one mesh is left.
\<close>

function cleanupMeshes :: "app \<Rightarrow> app" where
  "cleanupMeshes s =
     (if 1 < length (testMeshes s) then
        (let m = last (testMeshes s)
         in cleanupMeshes
              (s\<lparr>testMeshes := butlast (testMeshes s),
                 scene := scene_remove (MeshObject m) (scene s),
                 disposed := disposed s @ [m]\<rparr>))
      else s)"
  by pat_completeness auto
termination
  by (relation "measure (\<lambda>s. length (testMeshes s))") auto

text \<open>The three report texts (lines 162-165, 250-255 and 265-269).\<close>

definition baselineText :: "host \<Rightarrow> app \<Rightarrow> string" where
  "baselineText h s =
     ''=== Baseline Performance ==='' @ [nl] @
     ''Testing with '' @ toLocaleString h (currentVertexCount s) @ '' vertices'' @ [nl] @
     ''Baseline: '' @ toFixed h (baselineFrameTime s) 2 @ ''ms'' @ [nl] @
     ''=== Performance Testing ===''"

definition finalText :: "host \<Rightarrow> app \<Rightarrow> jsnum \<Rightarrow> string" where
  "finalText h s avgFrameTime =
     ''=== Test Results ==='' @ [nl] @
     ''| Vertices: '' @ toLocaleString h (currentVertexCount s) @
     '' | Baseline: '' @ toFixed h (baselineFrameTime s) 2 @
     ''ms | Final: '' @ toFixed h avgFrameTime 2 @
     ''ms | FPS: '' @ toFixed h (js_div (Fin 1000) avgFrameTime) 1"

definition progressText :: "host \<Rightarrow> app \<Rightarrow> jsnum \<Rightarrow> string" where
  "progressText h s avgFrameTime =
     ''Vertices: '' @ toLocaleString h (currentVertexCount s) @
     '' | Baseline: '' @ toFixed h (baselineFrameTime s) 2 @
     ''ms | Current: '' @ toFixed h avgFrameTime 2 @
     ''ms | FPS: '' @ toFixed h (js_div (Fin 1000) avgFrameTime) 1"

text \<open>Lines 148-168. \<open>frameTime\<close> is \<^verbatim>\<open>endTime - startTime\<close>.\<close>

definition measureBaselinePerformance :: "host \<Rightarrow> app \<Rightarrow> real \<Rightarrow> app" where
  "measureBaselinePerformance h s frameTime =
     (let s1 = s\<lparr>renders := renders s + 1,
                 baselineMeasurements := baselineMeasurements s @ [frameTime]\<rparr>
      in if 60 \<le> length (baselineMeasurements s1) then
           (let s2 = s1\<lparr>baselineFrameTime := average (baselineMeasurements s1),
                       isMeasuringBaseline := False,
                       currentVertexCount := 1000\<rparr>;
                s3 = addTestMesh h s2
            in updateStatus s3 (baselineText h s3))
         else s1)"

text \<open>Lines 226-271.\<close>

definition measurePerformance :: "host \<Rightarrow> app \<Rightarrow> real \<Rightarrow> app" where
  "measurePerformance h s frameTime =
     (if isTestStopped s then s\<lparr>renders := renders s + 1\<rparr>
      else
        (let s1 = s\<lparr>renders := renders s + 1,
                    frameTimes := pushFrameTime (frameTimes s) frameTime\<rparr>;
             avgFrameTime = average (frameTimes s1)
         in if js_gt avgFrameTime maxFrameTime then
              (let s2 = s1\<lparr>isTestStopped := True\<rparr>
               in updateStatus s2 (finalText h s2 avgFrameTime))
            else
              (let s2 = s1\<lparr>currentVertexCount := currentVertexCount s1 + 1000\<rparr>;
                   s3 = cleanupMeshes s2;
                   s4 = addTestMesh h s3
               in updateStatus s4 (progressText h s4 avgFrameTime))))"

text \<open>
  Lines 280-289, one animation frame. The camera controls and the scheduling of the next
  frame are the host's.
\<close>

definition animate :: "host \<Rightarrow> app \<Rightarrow> real \<Rightarrow> app" where
  "animate h s frameTime =
     (if isMeasuringBaseline s then measureBaselinePerformance h s frameTime
      else measurePerformance h s frameTime)"

text \<open>A sequence of frames, given the duration measured in each.\<close>

definition run :: "host \<Rightarrow> app \<Rightarrow> real list \<Rightarrow> app" where
  "run h s ts = foldl (animate h) s ts"

text \<open>
  The state before the first frame: the field initialisers of lines 72-81, then
  \<^verbatim>\<open>initThreeJS\<close> (lines 107-137) and \<^verbatim>\<open>createTestEnvironment\<close> (lines 139-146), as
  \<^verbatim>\<open>ngAfterViewInit\<close> calls them.
\<close>

definition fieldInitialisers :: app where
  "fieldInitialisers =
     \<lparr>scene = [], testMeshes = [], currentVertexCount = 0, baselineFrameTime = Fin 0,
      frameTimes = [], isMeasuringBaseline = True, isTestStopped = False,
      baselineMeasurements = [], logs = [], statusText = ''Initializing...'',
      renders = 0, disposed = [], randomCalls = 0, nextId = 0\<rparr>"

definition initThreeJS :: "app \<Rightarrow> app" where
  "initThreeJS s =
     (let s1 = s\<lparr>scene := scene_add AmbientLight (scene s)\<rparr>
      in s1\<lparr>scene := scene_add DirectionalLight (scene s1)\<rparr>)"

definition createTestEnvironment :: "app \<Rightarrow> app" where
  "createTestEnvironment s =
     (let cube = \<lparr>mesh_id = nextId s, geometry = BoxGeometry 1 1 1,
                  material = \<lparr>color = 0x00ff00, wireframe = False\<rparr>, position_x = 0\<rparr>
      in s\<lparr>scene := scene_add (MeshObject cube) (scene s),
            testMeshes := testMeshes s @ [cube],
            nextId := nextId s + 1\<rparr>)"

definition ngAfterViewInit :: app where
  "ngAfterViewInit = createTestEnvironment (initThreeJS fieldInitialisers)"

text \<open>
  Lines 291-305, \<^verbatim>\<open>copyResults\<close>. The method is asynchronous; its synchronous pieces
  are: the call of \<^verbatim>\<open>clipboard.writeText\<close> with the text to export; the continuation
  when the write succeeded, which remembers the text shown, appends a notice and starts a
  timer of two seconds; the continuation when the write failed; and the timer's callback,
  which puts the remembered text back.
\<close>

definition copyResults_text :: "app \<Rightarrow> string" where
  "copyResults_text s = statusText s"

definition copyResults_resolved :: "app \<Rightarrow> string \<times> app" where
  "copyResults_resolved s =
     (let originalText = statusText s
      in (originalText,
          s\<lparr>statusText := statusText s @ [nl, nl] @ ''Copied to clipboard! '' @
               [CHR 0xE2, CHR 0x9C, CHR 0x93]\<rparr>))"

definition copyResults_rejected :: "app \<Rightarrow> app" where
  "copyResults_rejected s =
     s\<lparr>statusText := statusText s @ [nl, nl] @
          ''Failed to copy. Please try manually selecting the text.''\<rparr>"

definition copyResults_timeout :: "string \<Rightarrow> app \<Rightarrow> app" where
  "copyResults_timeout originalText s = s\<lparr>statusText := originalText\<rparr>"

subsection \<open>Names used in the statements\<close>

text \<open>
  The mesh that \<^verbatim>\<open>addTestMesh\<close> attaches when it runs in state \<open>s\<close> with the vertex
  count \<open>n\<close>: the result of \<^verbatim>\<open>createTestMesh(n)\<close> with \<^verbatim>\<open>position.x = 2\<close>.
\<close>

definition newMesh :: "host \<Rightarrow> app \<Rightarrow> nat \<Rightarrow> mesh" where
  "newMesh h s n = \<lparr>mesh_id = nextId s,
       geometry = BufferGeometry (createTestMesh_buffers (random h) (randomCalls s) n),
       material = \<lparr>color = 0xff0000, wireframe = True\<rparr>,
       position_x = 2\<rparr>"

text \<open>The cube of \<^verbatim>\<open>createTestEnvironment\<close>, the first object created.\<close>

definition baselineCube :: mesh where
  "baselineCube = \<lparr>mesh_id = 0, geometry = BoxGeometry 1 1 1,
       material = \<lparr>color = 0x00ff00, wireframe = False\<rparr>, position_x = 0\<rparr>"

text \<open>
  The angles and the point that iteration \<open>i\<close> of the loop of \<^verbatim>\<open>createTestMesh\<close>
  computes (lines 178-184, with \<^verbatim>\<open>radius = 1\<close>).
\<close>

definition vertexTheta :: "(nat \<Rightarrow> real) \<Rightarrow> nat \<Rightarrow> nat \<Rightarrow> real" where
  "vertexTheta rnd k i = rnd (k + 2 * i) * pi * 2"

definition vertexPhi :: "(nat \<Rightarrow> real) \<Rightarrow> nat \<Rightarrow> nat \<Rightarrow> real" where
  "vertexPhi rnd k i = arccos (2 * rnd (k + 2 * i + 1) - 1)"

definition vertexPosition :: "(nat \<Rightarrow> real) \<Rightarrow> nat \<Rightarrow> nat \<Rightarrow> real \<times> real \<times> real" where
  "vertexPosition rnd k i =
     (sin (vertexPhi rnd k i) * cos (vertexTheta rnd k i),
      sin (vertexPhi rnd k i) * sin (vertexTheta rnd k i),
      cos (vertexPhi rnd k i))"

text \<open>
  The shape of the mesh list and of the scene in the states that the frames reach: the
  cube alone while the baseline is measured, the cube and one test mesh afterwards; the
  lights, then the meshes of the list, in the scene; only test meshes disposed.
\<close>

definition ownership :: "app \<Rightarrow> bool" where
  "ownership s =
     ((case testMeshes s of
         [c] \<Rightarrow> isMeasuringBaseline s \<and> c = baselineCube \<and>
                scene s = [AmbientLight, DirectionalLight, MeshObject c]
       | [c, m] \<Rightarrow> \<not> isMeasuringBaseline s \<and> c = baselineCube \<and>
                0 < mesh_id m \<and> mesh_id m < nextId s \<and>
                scene s = [AmbientLight, DirectionalLight, MeshObject c, MeshObject m]
       | _ \<Rightarrow> False)
      \<and> list_all (\<lambda>m. 0 < mesh_id m \<and> mesh_id m < nextId s) (disposed s)
      \<and> 0 < nextId s)"

text \<open>
  A host for the examples: every number is formatted as the empty string, and every call
  of \<^verbatim>\<open>Math.random()\<close> returns one half.
\<close>

definition sampleHost :: host where
  "sampleHost = \<lparr>toFixed = (\<lambda>x d. []), toLocaleString = (\<lambda>n. []), random = (\<lambda>i. 1 / 2)\<rparr>"

text \<open>
  A run in which the copy button is used while the test is about to stop: sixty frames of
  5 ms; a click on the button, whose clipboard write succeeds; a frame of 20 ms and any
  further frames \<open>mid\<close>; then the timer of \<^verbatim>\<open>copyResults\<close> fires.
\<close>

definition copyRace :: "host \<Rightarrow> real list \<Rightarrow> app" where
  "copyRace h mid =
     (let s0 = run h ngAfterViewInit (replicate 60 5);
          originalText = fst (copyResults_resolved s0);
          s1 = snd (copyResults_resolved s0);
          s2 = run h s1 (20 # mid)
      in copyResults_timeout originalText s2)"

section \<open>Auxiliary facts\<close>

declare cleanupMeshes.simps [simp del]
declare createTestMesh_loop.simps [simp del]

subsection \<open>The average and the window\<close>

lemma foldl_plus_sum_list: "foldl (+) a xs = a + sum_list (xs::real list)"
  by (induction xs arbitrary: a) (simp_all add: add.assoc)

lemma average_nonempty:
  "xs \<noteq> [] \<Longrightarrow> average xs = Fin (sum_list xs / real (length xs))"
  by (simp add: average_def foldl_plus_sum_list)

lemma average_empty: "average [] = NaN"
  by (simp add: average_def)

lemma pushFrameTime_nonempty: "pushFrameTime xs t \<noteq> []"
  by (cases xs) (simp_all add: pushFrameTime_def Let_def)

lemma pushFrameTime_last: "last (pushFrameTime xs t) = t"
  by (cases xs) (simp_all add: pushFrameTime_def Let_def last_tl)

lemma pushFrameTime_drop:
  "length xs \<le> 60 \<Longrightarrow> pushFrameTime xs t = drop (Suc (length xs) - 60) (xs @ [t])"
proof (cases "length xs = 60")
  case True
  then obtain a list where "xs = a # list" by (cases xs) auto
  with True show ?thesis by (simp add: pushFrameTime_def Let_def)
next
  case False
  assume "length xs \<le> 60"
  with False have "length xs < 60" by simp
  then show ?thesis by (simp add: pushFrameTime_def Let_def)
qed

lemma pushes_window:
  "foldl pushFrameTime [] ts = drop (length ts - 60) ts"
proof (induction ts rule: rev_induct)
  case Nil
  show ?case by simp
next
  case (snoc t ts)
  have le: "length (drop (length ts - 60) ts) \<le> 60" by simp
  have "foldl pushFrameTime [] (ts @ [t]) = pushFrameTime (drop (length ts - 60) ts) t"
    using snoc by simp
  also have "\<dots> = drop (Suc (length (drop (length ts - 60) ts)) - 60)
                     (drop (length ts - 60) ts @ [t])"
    by (rule pushFrameTime_drop [OF le])
  also have "\<dots> = drop (length (ts @ [t]) - 60) (ts @ [t])"
  proof (cases "length ts < 60")
    case True
    then show ?thesis by simp
  next
    case False
    then have "length ts - (length ts - 60) = 60" by simp
    moreover from False have "Suc (length ts) - 60 = Suc (length ts - 60)" by simp
    ultimately show ?thesis by simp
  qed
  finally show ?case .
qed

subsection \<open>The loop of cleanupMeshes\<close>

lemma cleanupMeshes_eq:
  "cleanupMeshes s =
     s\<lparr>testMeshes := take 1 (testMeshes s),
       scene := fold (\<lambda>m. scene_remove (MeshObject m)) (rev (drop 1 (testMeshes s))) (scene s),
       disposed := disposed s @ rev (drop 1 (testMeshes s))\<rparr>"
proof (induction s rule: cleanupMeshes.induct)
  case (1 s)
  show ?case
  proof (cases "1 < length (testMeshes s)")
    case False
    then have "take 1 (testMeshes s) = testMeshes s" "drop 1 (testMeshes s) = []" by simp_all
    then show ?thesis using False by (subst cleanupMeshes.simps) simp
  next
    case True
    then obtain ys l where ys: "testMeshes s = ys @ [l]" "ys \<noteq> []"
      by (cases "testMeshes s" rule: rev_cases) auto
    from ys have "Suc 0 - length ys = 0" by (cases ys) simp_all
    then show ?thesis
      using True ys "1.IH"[OF True refl]
      by (subst cleanupMeshes.simps) (simp add: Let_def)
  qed
qed

subsection \<open>One frame\<close>

lemma animate_stopped:
  "\<not> isMeasuringBaseline s \<Longrightarrow> isTestStopped s \<Longrightarrow>
   animate h s t = s\<lparr>renders := renders s + 1\<rparr>"
  by (simp add: animate_def measurePerformance_def)

lemma run_stopped:
  "\<not> isMeasuringBaseline s \<Longrightarrow> isTestStopped s \<Longrightarrow>
   run h s ts = s\<lparr>renders := renders s + length ts\<rparr>"
proof (induction ts arbitrary: s)
  case Nil
  then show ?case by (simp add: run_def)
next
  case (Cons t ts)
  have "run h s (t # ts) = run h (animate h s t) ts" by (simp add: run_def)
  also have "\<dots> = run h (s\<lparr>renders := renders s + 1\<rparr>) ts"
    using Cons.prems by (simp add: animate_stopped)
  also have "\<dots> = s\<lparr>renders := renders s + 1\<rparr>\<lparr>renders := renders (s\<lparr>renders := renders s + 1\<rparr>) + length ts\<rparr>"
    using Cons.prems by (intro Cons.IH) simp_all
  finally show ?case by simp
qed

lemma animate_exceed:
  assumes "\<not> isMeasuringBaseline s" "\<not> isTestStopped s"
      and "js_gt (average (pushFrameTime (frameTimes s) t)) maxFrameTime"
  shows "animate h s t =
     s\<lparr>renders := renders s + 1,
       frameTimes := pushFrameTime (frameTimes s) t,
       isTestStopped := True,
       logs := logs s @ [finalText h s (average (pushFrameTime (frameTimes s) t))],
       statusText := join_nl (logs s @ [finalText h s (average (pushFrameTime (frameTimes s) t))])\<rparr>"
  using assms
  by (simp add: animate_def measurePerformance_def updateStatus_def Let_def finalText_def)

lemma addTestMesh_eq:
  "addTestMesh h s =
     s\<lparr>scene := scene_add (MeshObject (newMesh h s (currentVertexCount s))) (scene s),
       testMeshes := testMeshes s @ [newMesh h s (currentVertexCount s)],
       randomCalls := randomCalls s + 2 * currentVertexCount s,
       nextId := nextId s + 1\<rparr>"
  by (simp add: addTestMesh_def createTestMesh_def Let_def newMesh_def)

lemma animate_grow:
  assumes "\<not> isMeasuringBaseline s" "\<not> isTestStopped s"
      and "\<not> js_gt (average (pushFrameTime (frameTimes s) t)) maxFrameTime"
  shows "animate h s t =
     s\<lparr>renders := renders s + 1,
       frameTimes := pushFrameTime (frameTimes s) t,
       currentVertexCount := currentVertexCount s + 1000,
       testMeshes := take 1 (testMeshes s) @ [newMesh h s (currentVertexCount s + 1000)],
       scene := scene_add (MeshObject (newMesh h s (currentVertexCount s + 1000)))
                  (fold (\<lambda>m. scene_remove (MeshObject m)) (rev (drop 1 (testMeshes s))) (scene s)),
       disposed := disposed s @ rev (drop 1 (testMeshes s)),
       randomCalls := randomCalls s + 2 * (currentVertexCount s + 1000),
       nextId := nextId s + 1,
       logs := logs s @ [progressText h (s\<lparr>currentVertexCount := currentVertexCount s + 1000\<rparr>)
                           (average (pushFrameTime (frameTimes s) t))],
       statusText := join_nl (logs s @ [progressText h (s\<lparr>currentVertexCount := currentVertexCount s + 1000\<rparr>)
                           (average (pushFrameTime (frameTimes s) t))])\<rparr>"
  using assms
  by (simp add: animate_def measurePerformance_def updateStatus_def Let_def progressText_def
      addTestMesh_eq cleanupMeshes_eq newMesh_def)

lemma animate_baseline_wait:
  assumes "isMeasuringBaseline s" "Suc (length (baselineMeasurements s)) < 60"
  shows "animate h s t =
     s\<lparr>renders := renders s + 1, baselineMeasurements := baselineMeasurements s @ [t]\<rparr>"
  using assms by (simp add: animate_def measureBaselinePerformance_def Let_def)

lemma animate_baseline_done:
  assumes "isMeasuringBaseline s" "60 \<le> Suc (length (baselineMeasurements s))"
  shows "animate h s t =
     s\<lparr>renders := renders s + 1,
       baselineMeasurements := baselineMeasurements s @ [t],
       baselineFrameTime := average (baselineMeasurements s @ [t]),
       isMeasuringBaseline := False,
       currentVertexCount := 1000,
       scene := scene_add (MeshObject (newMesh h s 1000)) (scene s),
       testMeshes := testMeshes s @ [newMesh h s 1000],
       randomCalls := randomCalls s + 2000,
       nextId := nextId s + 1,
       logs := logs s @ [baselineText h (s\<lparr>currentVertexCount := 1000,
                            baselineFrameTime := average (baselineMeasurements s @ [t])\<rparr>)],
       statusText := join_nl (logs s @ [baselineText h (s\<lparr>currentVertexCount := 1000,
                            baselineFrameTime := average (baselineMeasurements s @ [t])\<rparr>)])\<rparr>"
  using assms
  by (simp add: animate_def measureBaselinePerformance_def updateStatus_def Let_def baselineText_def
      addTestMesh_eq newMesh_def)

subsection \<open>Sequences of frames\<close>

lemma ngAfterViewInit_eq:
  "ngAfterViewInit =
     \<lparr>scene = [AmbientLight, DirectionalLight, MeshObject baselineCube],
      testMeshes = [baselineCube], currentVertexCount = 0, baselineFrameTime = Fin 0,
      frameTimes = [], isMeasuringBaseline = True, isTestStopped = False,
      baselineMeasurements = [], logs = [], statusText = ''Initializing...'',
      renders = 0, disposed = [], randomCalls = 0, nextId = 1\<rparr>"
  by (simp add: ngAfterViewInit_def createTestEnvironment_def initThreeJS_def
      fieldInitialisers_def scene_add_def baselineCube_def Let_def)

lemma run_Nil: "run h s [] = s"
  by (simp add: run_def)

lemma run_Cons: "run h s (t # ts) = run h (animate h s t) ts"
  by (simp add: run_def)

lemma run_append: "run h s (xs @ ys) = run h (run h s xs) ys"
  by (simp add: run_def)

lemma run_snoc: "run h s (ts @ [t]) = animate h (run h s ts) t"
  by (simp add: run_def)

lemma run_baseline_wait:
  "isMeasuringBaseline s \<Longrightarrow> length (baselineMeasurements s) + length ts < 60 \<Longrightarrow>
   run h s ts = s\<lparr>renders := renders s + length ts,
                   baselineMeasurements := baselineMeasurements s @ ts\<rparr>"
proof (induction ts arbitrary: s)
  case Nil
  then show ?case by (simp add: run_Nil)
next
  case (Cons t ts)
  let ?s1 = "s\<lparr>renders := renders s + 1, baselineMeasurements := baselineMeasurements s @ [t]\<rparr>"
  have step: "animate h s t = ?s1"
    using Cons.prems by (intro animate_baseline_wait) simp_all
  have "run h ?s1 ts = ?s1\<lparr>renders := renders ?s1 + length ts,
                   baselineMeasurements := baselineMeasurements ?s1 @ ts\<rparr>"
    using Cons.prems by (intro Cons.IH) simp_all
  then show ?case by (simp add: run_Cons step)
qed

lemma animate_not_baseline:
  assumes "\<not> isMeasuringBaseline s"
  shows "\<not> isMeasuringBaseline (animate h s t) \<and>
         baselineFrameTime (animate h s t) = baselineFrameTime s"
proof (cases "isTestStopped s")
  case True
  with assms show ?thesis by (simp add: animate_stopped)
next
  case False
  show ?thesis
  proof (cases "js_gt (average (pushFrameTime (frameTimes s) t)) maxFrameTime")
    case True
    with assms False show ?thesis by (simp add: animate_exceed)
  next
    case g: False
    with assms False show ?thesis by (simp add: animate_grow)
  qed
qed

lemma run_not_baseline:
  "\<not> isMeasuringBaseline s \<Longrightarrow>
   \<not> isMeasuringBaseline (run h s ts) \<and> baselineFrameTime (run h s ts) = baselineFrameTime s"
proof (induction ts arbitrary: s)
  case Nil
  then show ?case by (simp add: run_Nil)
next
  case (Cons t ts)
  from animate_not_baseline [OF Cons.prems, of h t]
  have a: "\<not> isMeasuringBaseline (animate h s t)"
    and b: "baselineFrameTime (animate h s t) = baselineFrameTime s" by simp_all
  from Cons.IH [OF a] b show ?case by (simp add: run_Cons)
qed

text \<open>The state after exactly 60 frames.\<close>

lemma run_baseline_60:
  assumes "length ts = 60"
  shows "run h ngAfterViewInit ts =
     ngAfterViewInit\<lparr>renders := 60,
       baselineMeasurements := ts,
       baselineFrameTime := Fin (sum_list ts / 60),
       isMeasuringBaseline := False,
       currentVertexCount := 1000,
       scene := [AmbientLight, DirectionalLight, MeshObject baselineCube,
                 MeshObject (newMesh h ngAfterViewInit 1000)],
       testMeshes := [baselineCube, newMesh h ngAfterViewInit 1000],
       randomCalls := 2000,
       nextId := 2,
       logs := [baselineText h (ngAfterViewInit\<lparr>currentVertexCount := 1000,
                            baselineFrameTime := Fin (sum_list ts / 60)\<rparr>)],
       statusText := baselineText h (ngAfterViewInit\<lparr>currentVertexCount := 1000,
                            baselineFrameTime := Fin (sum_list ts / 60)\<rparr>)\<rparr>"
proof -
  from assms obtain us u where ts: "ts = us @ [u]" and us: "length us = 59"
    by (cases ts rule: rev_cases) auto
  let ?s = "ngAfterViewInit\<lparr>renders := renders ngAfterViewInit + length us,
              baselineMeasurements := baselineMeasurements ngAfterViewInit @ us\<rparr>"
  have w: "run h ngAfterViewInit us = ?s"
    using us by (intro run_baseline_wait) (simp_all add: ngAfterViewInit_eq)
  have avg: "average (us @ [u]) = Fin (sum_list (us @ [u]) / 60)"
    using us by (subst average_nonempty) simp_all
  have neq: "MeshObject (newMesh h ngAfterViewInit 1000) \<noteq> MeshObject baselineCube"
    by (simp add: newMesh_def baselineCube_def)
  have "run h ngAfterViewInit ts = animate h ?s u"
    by (simp add: ts run_snoc w)
  also have "\<dots> = ?s\<lparr>renders := renders ?s + 1,
       baselineMeasurements := baselineMeasurements ?s @ [u],
       baselineFrameTime := average (baselineMeasurements ?s @ [u]),
       isMeasuringBaseline := False,
       currentVertexCount := 1000,
       scene := scene_add (MeshObject (newMesh h ?s 1000)) (scene ?s),
       testMeshes := testMeshes ?s @ [newMesh h ?s 1000],
       randomCalls := randomCalls ?s + 2000,
       nextId := nextId ?s + 1,
       logs := logs ?s @ [baselineText h (?s\<lparr>currentVertexCount := 1000,
                            baselineFrameTime := average (baselineMeasurements ?s @ [u])\<rparr>)],
       statusText := join_nl (logs ?s @ [baselineText h (?s\<lparr>currentVertexCount := 1000,
                            baselineFrameTime := average (baselineMeasurements ?s @ [u])\<rparr>)])\<rparr>"
    using us by (intro animate_baseline_done) (simp_all add: ngAfterViewInit_eq)
  finally show ?thesis
    using us neq
    by (simp add: ts avg ngAfterViewInit_eq newMesh_def scene_add_def baselineText_def)
qed

subsection \<open>Meshes, scene and status text of the reachable states\<close>

lemma ownership_cases:
  assumes "ownership s"
  obtains (baseline) "isMeasuringBaseline s" "testMeshes s = [baselineCube]"
      "scene s = [AmbientLight, DirectionalLight, MeshObject baselineCube]"
  | (test) m where "\<not> isMeasuringBaseline s" "testMeshes s = [baselineCube, m]"
      "0 < mesh_id m" "mesh_id m < nextId s"
      "scene s = [AmbientLight, DirectionalLight, MeshObject baselineCube, MeshObject m]"
  using assms by (auto simp: ownership_def split: list.splits)

lemma ownership_disposed:
  "ownership s \<Longrightarrow> m \<in> set (disposed s) \<Longrightarrow> 0 < mesh_id m \<and> mesh_id m < nextId s"
  by (auto simp: ownership_def list_all_iff)

lemma ownership_nextId: "ownership s \<Longrightarrow> 0 < nextId s"
  by (simp add: ownership_def)

lemma ownership_init: "ownership ngAfterViewInit"
  by (simp add: ownership_def ngAfterViewInit_eq)

lemma mesh_id_baselineCube: "mesh_id baselineCube = 0"
  by (simp add: baselineCube_def)

lemma mesh_id_newMesh: "mesh_id (newMesh h s n) = nextId s"
  by (simp add: newMesh_def)

lemma ownership_animate:
  assumes "ownership s"
  shows "ownership (animate h s t)"
  using assms
proof (cases rule: ownership_cases)
  case baseline
  have d: "list_all (\<lambda>m. 0 < mesh_id m \<and> mesh_id m < nextId s) (disposed s)" "0 < nextId s"
    using assms by (simp_all add: ownership_def)
  then have d': "list_all (\<lambda>m. 0 < mesh_id m \<and> mesh_id m < Suc (nextId s)) (disposed s)"
    by (auto simp: list_all_iff)
  have neq: "MeshObject (newMesh h s 1000) \<noteq> MeshObject baselineCube"
    using d(2) by (auto simp: newMesh_def baselineCube_def)
  show ?thesis
  proof (cases "Suc (length (baselineMeasurements s)) < 60")
    case True
    with baseline d show ?thesis
      by (simp add: animate_baseline_wait ownership_def)
  next
    case False
    then have "60 \<le> Suc (length (baselineMeasurements s))" by simp
    with baseline d d' neq show ?thesis
      by (simp add: animate_baseline_done ownership_def scene_add_def mesh_id_newMesh)
  qed
next
  case (test m)
  have d: "list_all (\<lambda>m. 0 < mesh_id m \<and> mesh_id m < nextId s) (disposed s)" "0 < nextId s"
    using assms by (simp_all add: ownership_def)
  then have d': "list_all (\<lambda>m. 0 < mesh_id m \<and> mesh_id m < Suc (nextId s)) (disposed s)"
    by (auto simp: list_all_iff)
  have neq: "MeshObject (newMesh h s n) \<noteq> MeshObject baselineCube" for n
    using d(2) by (auto simp: newMesh_def baselineCube_def)
  have neq2: "m \<noteq> baselineCube"
    using test(3) by (auto simp: baselineCube_def)
  show ?thesis
  proof (cases "isTestStopped s")
    case True
    with test d show ?thesis by (simp add: animate_stopped ownership_def)
  next
    case False
    show ?thesis
    proof (cases "js_gt (average (pushFrameTime (frameTimes s) t)) maxFrameTime")
      case True
      with test d False show ?thesis by (simp add: animate_exceed ownership_def)
    next
      case g: False
      with test d d' False neq neq2 show ?thesis
        by (simp add: animate_grow ownership_def scene_add_def scene_remove_def mesh_id_newMesh)
    qed
  qed
qed

lemma ownership_run: "ownership s \<Longrightarrow> ownership (run h s ts)"
  by (induction ts arbitrary: s) (simp_all add: run_Nil run_Cons ownership_animate)

text \<open>The text shown and the log.\<close>

lemma animate_status:
  "(logs (animate h s t) = logs s \<and> statusText (animate h s t) = statusText s) \<or>
   (logs (animate h s t) \<noteq> [] \<and> statusText (animate h s t) = join_nl (logs (animate h s t)))"
proof (cases "isMeasuringBaseline s")
  case True
  show ?thesis
  proof (cases "Suc (length (baselineMeasurements s)) < 60")
    case t: True
    with True show ?thesis by (simp add: animate_baseline_wait)
  next
    case False
    then have "60 \<le> Suc (length (baselineMeasurements s))" by simp
    with True show ?thesis by (simp add: animate_baseline_done)
  qed
next
  case nb: False
  show ?thesis
  proof (cases "isTestStopped s")
    case True
    with nb show ?thesis by (simp add: animate_stopped)
  next
    case False
    show ?thesis
    proof (cases "js_gt (average (pushFrameTime (frameTimes s) t)) maxFrameTime")
      case True
      with nb False show ?thesis by (simp add: animate_exceed)
    next
      case g: False
      with nb False show ?thesis by (simp add: animate_grow)
    qed
  qed
qed

lemma run_status:
  "(logs (run h s ts) = logs s \<and> statusText (run h s ts) = statusText s) \<or>
   (logs (run h s ts) \<noteq> [] \<and> statusText (run h s ts) = join_nl (logs (run h s ts)))"
proof (induction ts rule: rev_induct)
  case Nil
  show ?case by (simp add: run_Nil)
next
  case (snoc t ts)
  from animate_status [of h "run h s ts" t] snoc show ?case
    by (auto simp: run_snoc)
qed

subsection \<open>The loop of createTestMesh\<close>

lemma unit_sphere:
  "(sin p * cos t) * (sin p * cos t) + (sin p * sin t) * (sin p * sin t) + cos p * cos p = (1::real)"
proof -
  have "(sin p * cos t) * (sin p * cos t) + (sin p * sin t) * (sin p * sin t) + cos p * cos p
      = sin p * sin p * (sin t * sin t + cos t * cos t) + cos p * cos p"
    by (simp only: distrib_left mult.assoc mult.left_commute mult.commute add.commute)
  also have "\<dots> = 1"
  proof -
    have "sin t * sin t + cos t * cos t = 1" "sin p * sin p + cos p * cos p = 1"
      using sin_cos_squared_add3 [of t] sin_cos_squared_add3 [of p]
      by (simp_all add: add.commute)
    then show ?thesis by simp
  qed
  finally show ?thesis .
qed

lemma createTestMesh_loop_done:
  "\<not> i < n \<Longrightarrow> createTestMesh_loop rnd k n i b = b"
  by (subst createTestMesh_loop.simps) simp

lemma createTestMesh_loop_step:
  assumes "i < n" "length (positions b) = n * 3"
  shows "createTestMesh_loop rnd k n i b =
     createTestMesh_loop rnd k n (Suc i)
       \<lparr>positions = (positions b)[i * 3 := fst (vertexPosition rnd k i),
                                  i * 3 + 1 := fst (snd (vertexPosition rnd k i)),
                                  i * 3 + 2 := snd (snd (vertexPosition rnd k i))],
        normals = (normals b)[i * 3 := Fin (fst (vertexPosition rnd k i)),
                              i * 3 + 1 := Fin (fst (snd (vertexPosition rnd k i))),
                              i * 3 + 2 := Fin (snd (snd (vertexPosition rnd k i)))],
        indices = (indices b)[i := of_nat i]\<rparr>"
proof -
  have r: "i * 3 < length (positions b)" "i * 3 + 1 < length (positions b)"
    "i * 3 + 2 < length (positions b)"
    using assms by simp_all
  show ?thesis
    using assms(1) r
    by (subst createTestMesh_loop.simps)
       (simp add: Let_def vertexPosition_def vertexPhi_def vertexTheta_def unit_sphere
          nth_list_update)
qed

lemma createTestMesh_loop_inv:
  assumes "n - i = d" "i \<le> n"
      and "length (positions b) = n * 3" "length (normals b) = n * 3" "length (indices b) = n"
  shows "length (positions (createTestMesh_loop rnd k n i b)) = n * 3 \<and>
         length (normals (createTestMesh_loop rnd k n i b)) = n * 3 \<and>
         length (indices (createTestMesh_loop rnd k n i b)) = n \<and>
         (\<forall>q < i * 3. positions (createTestMesh_loop rnd k n i b) ! q = positions b ! q \<and>
                       normals (createTestMesh_loop rnd k n i b) ! q = normals b ! q) \<and>
         (\<forall>j < i. indices (createTestMesh_loop rnd k n i b) ! j = indices b ! j) \<and>
         (\<forall>j. i \<le> j \<and> j < n \<longrightarrow>
            positions (createTestMesh_loop rnd k n i b) ! (j * 3) = fst (vertexPosition rnd k j) \<and>
            positions (createTestMesh_loop rnd k n i b) ! (j * 3 + 1) = fst (snd (vertexPosition rnd k j)) \<and>
            positions (createTestMesh_loop rnd k n i b) ! (j * 3 + 2) = snd (snd (vertexPosition rnd k j)) \<and>
            normals (createTestMesh_loop rnd k n i b) ! (j * 3) = Fin (fst (vertexPosition rnd k j)) \<and>
            normals (createTestMesh_loop rnd k n i b) ! (j * 3 + 1) = Fin (fst (snd (vertexPosition rnd k j))) \<and>
            normals (createTestMesh_loop rnd k n i b) ! (j * 3 + 2) = Fin (snd (snd (vertexPosition rnd k j))) \<and>
            indices (createTestMesh_loop rnd k n i b) ! j = of_nat j)"
  using assms
proof (induction d arbitrary: i b)
  case 0
  then have "\<not> i < n" by simp
  with 0 show ?case by (auto simp: createTestMesh_loop_done)
next
  case (Suc d)
  then have lt: "i < n" by simp
  let ?b = "\<lparr>positions = (positions b)[i * 3 := fst (vertexPosition rnd k i),
                                  i * 3 + 1 := fst (snd (vertexPosition rnd k i)),
                                  i * 3 + 2 := snd (snd (vertexPosition rnd k i))],
        normals = (normals b)[i * 3 := Fin (fst (vertexPosition rnd k i)),
                              i * 3 + 1 := Fin (fst (snd (vertexPosition rnd k i))),
                              i * 3 + 2 := Fin (snd (snd (vertexPosition rnd k i)))],
        indices = (indices b)[i := of_nat i]\<rparr>"
  let ?r = "createTestMesh_loop rnd k n (Suc i) ?b"
  have step: "createTestMesh_loop rnd k n i b = ?r"
    using lt Suc.prems(3) by (rule createTestMesh_loop_step)
  have ih: "length (positions ?r) = n * 3 \<and>
         length (normals ?r) = n * 3 \<and>
         length (indices ?r) = n \<and>
         (\<forall>q < Suc i * 3. positions ?r ! q = positions ?b ! q \<and> normals ?r ! q = normals ?b ! q) \<and>
         (\<forall>j < Suc i. indices ?r ! j = indices ?b ! j) \<and>
         (\<forall>j. Suc i \<le> j \<and> j < n \<longrightarrow>
            positions ?r ! (j * 3) = fst (vertexPosition rnd k j) \<and>
            positions ?r ! (j * 3 + 1) = fst (snd (vertexPosition rnd k j)) \<and>
            positions ?r ! (j * 3 + 2) = snd (snd (vertexPosition rnd k j)) \<and>
            normals ?r ! (j * 3) = Fin (fst (vertexPosition rnd k j)) \<and>
            normals ?r ! (j * 3 + 1) = Fin (fst (snd (vertexPosition rnd k j))) \<and>
            normals ?r ! (j * 3 + 2) = Fin (snd (snd (vertexPosition rnd k j))) \<and>
            indices ?r ! j = of_nat j)"
    using Suc.prems lt by (intro Suc.IH) simp_all
  have len: "i * 3 + 2 < length (positions b)" "i * 3 + 2 < length (normals b)"
    "i < length (indices b)"
    using lt Suc.prems by simp_all
  have old: "positions ?r ! q = positions b ! q \<and> normals ?r ! q = normals b ! q"
    if "q < i * 3" for q
  proof -
    from that have "q < Suc i * 3" by simp
    with ih have "positions ?r ! q = positions ?b ! q \<and> normals ?r ! q = normals ?b ! q"
      by blast
    with that show ?thesis by simp
  qed
  have oldi: "indices ?r ! j = indices b ! j" if "j < i" for j
  proof -
    from that have "j < Suc i" by simp
    with ih have "indices ?r ! j = indices ?b ! j" by blast
    with that show ?thesis by simp
  qed
  have cur: "positions ?r ! (i * 3) = fst (vertexPosition rnd k i) \<and>
            positions ?r ! (i * 3 + 1) = fst (snd (vertexPosition rnd k i)) \<and>
            positions ?r ! (i * 3 + 2) = snd (snd (vertexPosition rnd k i)) \<and>
            normals ?r ! (i * 3) = Fin (fst (vertexPosition rnd k i)) \<and>
            normals ?r ! (i * 3 + 1) = Fin (fst (snd (vertexPosition rnd k i))) \<and>
            normals ?r ! (i * 3 + 2) = Fin (snd (snd (vertexPosition rnd k i))) \<and>
            indices ?r ! i = of_nat i"
  proof -
    have "i * 3 < Suc i * 3" "i * 3 + 1 < Suc i * 3" "i * 3 + 2 < Suc i * 3" "i < Suc i"
      by simp_all
    with ih have
      "positions ?r ! (i * 3) = positions ?b ! (i * 3)"
      "positions ?r ! (i * 3 + 1) = positions ?b ! (i * 3 + 1)"
      "positions ?r ! (i * 3 + 2) = positions ?b ! (i * 3 + 2)"
      "normals ?r ! (i * 3) = normals ?b ! (i * 3)"
      "normals ?r ! (i * 3 + 1) = normals ?b ! (i * 3 + 1)"
      "normals ?r ! (i * 3 + 2) = normals ?b ! (i * 3 + 2)"
      "indices ?r ! i = indices ?b ! i"
      by blast+
    with len show ?thesis by (simp add: nth_list_update)
  qed
  have new: "positions ?r ! (j * 3) = fst (vertexPosition rnd k j) \<and>
            positions ?r ! (j * 3 + 1) = fst (snd (vertexPosition rnd k j)) \<and>
            positions ?r ! (j * 3 + 2) = snd (snd (vertexPosition rnd k j)) \<and>
            normals ?r ! (j * 3) = Fin (fst (vertexPosition rnd k j)) \<and>
            normals ?r ! (j * 3 + 1) = Fin (fst (snd (vertexPosition rnd k j))) \<and>
            normals ?r ! (j * 3 + 2) = Fin (snd (snd (vertexPosition rnd k j))) \<and>
            indices ?r ! j = of_nat j"
    if "i \<le> j" "j < n" for j
  proof (cases "j = i")
    case True
    with cur show ?thesis by simp
  next
    case False
    with that have "Suc i \<le> j \<and> j < n" by simp
    with ih show ?thesis by blast
  qed
  from ih old oldi new show ?case
    unfolding step by blast
qed

lemma createTestMesh_buffers_entries:
  fixes rnd k n
  defines "B \<equiv> createTestMesh_buffers rnd k n"
  shows "length (positions B) = n * 3 \<and> length (normals B) = n * 3 \<and>
         length (indices B) = n \<and>
         (\<forall>j. j < n \<longrightarrow>
            positions B ! (j * 3) = fst (vertexPosition rnd k j) \<and>
            positions B ! (j * 3 + 1) = fst (snd (vertexPosition rnd k j)) \<and>
            positions B ! (j * 3 + 2) = snd (snd (vertexPosition rnd k j)) \<and>
            normals B ! (j * 3) = Fin (fst (vertexPosition rnd k j)) \<and>
            normals B ! (j * 3 + 1) = Fin (fst (snd (vertexPosition rnd k j))) \<and>
            normals B ! (j * 3 + 2) = Fin (snd (snd (vertexPosition rnd k j))) \<and>
            indices B ! j = of_nat j)"
  using createTestMesh_loop_inv [of n 0 n
      "\<lparr>positions = replicate (n * 3) 0, normals = replicate (n * 3) (Fin 0),
        indices = replicate n 0\<rparr>" rnd k]
  unfolding B_def createTestMesh_buffers_def by simp

lemma vertexPosition_unit:
  "fst (vertexPosition rnd k i) * fst (vertexPosition rnd k i) +
   fst (snd (vertexPosition rnd k i)) * fst (snd (vertexPosition rnd k i)) +
   snd (snd (vertexPosition rnd k i)) * snd (snd (vertexPosition rnd k i)) = 1"
  by (simp add: vertexPosition_def unit_sphere)

lemma vertexTheta_range:
  assumes "0 \<le> rnd (k + 2 * i)" "rnd (k + 2 * i) < 1"
  shows "0 \<le> vertexTheta rnd k i \<and> vertexTheta rnd k i < 2 * pi"
proof -
  have "rnd (k + 2 * i) * (pi * 2) < 1 * (pi * 2)"
    using assms(2) by (intro mult_strict_right_mono) simp_all
  with assms(1) show ?thesis by (simp add: vertexTheta_def mult.assoc)
qed

lemma vertexPhi_range:
  assumes "0 \<le> rnd (k + 2 * i + 1)" "rnd (k + 2 * i + 1) < 1"
  shows "0 \<le> vertexPhi rnd k i \<and> vertexPhi rnd k i \<le> pi"
  unfolding vertexPhi_def using assms by (intro conjI arccos_lbound arccos_ubound) simp_all

lemma unat_indices:
  assumes "n \<le> 2 ^ 32" "length (ix :: 32 word list) = n" "\<forall>j<n. ix ! j = of_nat j"
  shows "map unat ix = [0..<n]"
proof (rule nth_equalityI)
  show "length (map unat ix) = length [0..<n]" using assms(2) by simp
next
  fix j assume "j < length (map unat ix)"
  then have j: "j < n" using assms(2) by simp
  with assms(1) have "j < 2 ^ 32" by simp
  then have "unat (of_nat j :: 32 word) = j"
    by (simp add: unat_of_nat)
  with j assms show "map unat ix ! j = [0..<n] ! j" by simp
qed

lemma sampleHost_random: "\<forall>j. 0 \<le> random sampleHost j \<and> random sampleHost j < 1"
  by (simp add: sampleHost_def)

lemma newMesh_fields:
  "mesh_id (newMesh h s n) = nextId s \<and> position_x (newMesh h s n) = 2 \<and>
   material (newMesh h s n) = \<lparr>color = 0xff0000, wireframe = True\<rparr>"
  by (simp add: newMesh_def)

lemma newMesh_workload:
  "\<exists>B. geometry (newMesh h s n) = BufferGeometry B \<and>
       length (positions B) = n * 3 \<and> length (normals B) = n * 3 \<and>
       length (indices B) = n \<and>
       (\<forall>i<n.
          sqrt (positions B ! (i * 3) * positions B ! (i * 3) +
                positions B ! (i * 3 + 1) * positions B ! (i * 3 + 1) +
                positions B ! (i * 3 + 2) * positions B ! (i * 3 + 2)) = 1 \<and>
          normals B ! (i * 3) = Fin (positions B ! (i * 3)) \<and>
          normals B ! (i * 3 + 1) = Fin (positions B ! (i * 3 + 1)) \<and>
          normals B ! (i * 3 + 2) = Fin (positions B ! (i * 3 + 2)) \<and>
          indices B ! i = of_nat i)"
proof -
  let ?B = "createTestMesh_buffers (random h) (randomCalls s) n"
  note e = createTestMesh_buffers_entries [of "random h" "randomCalls s" n]
  have g: "geometry (newMesh h s n) = BufferGeometry ?B"
    by (simp add: newMesh_def)
  have v: "sqrt (positions ?B ! (i * 3) * positions ?B ! (i * 3) +
                positions ?B ! (i * 3 + 1) * positions ?B ! (i * 3 + 1) +
                positions ?B ! (i * 3 + 2) * positions ?B ! (i * 3 + 2)) = 1 \<and>
          normals ?B ! (i * 3) = Fin (positions ?B ! (i * 3)) \<and>
          normals ?B ! (i * 3 + 1) = Fin (positions ?B ! (i * 3 + 1)) \<and>
          normals ?B ! (i * 3 + 2) = Fin (positions ?B ! (i * 3 + 2)) \<and>
          indices ?B ! i = of_nat i"
    if "i < n" for i
  proof -
    from e that have p:
      "positions ?B ! (i * 3) = fst (vertexPosition (random h) (randomCalls s) i)"
      "positions ?B ! (i * 3 + 1) = fst (snd (vertexPosition (random h) (randomCalls s) i))"
      "positions ?B ! (i * 3 + 2) = snd (snd (vertexPosition (random h) (randomCalls s) i))"
      "normals ?B ! (i * 3) = Fin (fst (vertexPosition (random h) (randomCalls s) i))"
      "normals ?B ! (i * 3 + 1) = Fin (fst (snd (vertexPosition (random h) (randomCalls s) i)))"
      "normals ?B ! (i * 3 + 2) = Fin (snd (snd (vertexPosition (random h) (randomCalls s) i)))"
      "indices ?B ! i = of_nat i"
      by blast+
    from vertexPosition_unit [of "random h" "randomCalls s" i]
    show ?thesis unfolding p by simp
  qed
  from g e v show ?thesis by blast
qed

subsection \<open>Further facts about frames\<close>

lemma js_gt_average:
  "w \<noteq> [] \<Longrightarrow> js_gt (average w) maxFrameTime = (16.67 < sum_list w / real (length w))"
  by (simp add: average_nonempty maxFrameTime_def)

lemma run_baseline_short:
  assumes "length ts < 60"
  shows "run h ngAfterViewInit ts =
           ngAfterViewInit\<lparr>renders := length ts, baselineMeasurements := ts\<rparr>"
proof -
  have "run h ngAfterViewInit ts =
      ngAfterViewInit\<lparr>renders := renders ngAfterViewInit + length ts,
         baselineMeasurements := baselineMeasurements ngAfterViewInit @ ts\<rparr>"
    using assms by (intro run_baseline_wait) (simp_all add: ngAfterViewInit_eq)
  then show ?thesis by (simp add: ngAfterViewInit_eq)
qed

subsection \<open>Two sample runs\<close>

text \<open>
  Sixty frames of 5 ms end the baseline phase; a following frame of 20 ms exceeds the
  budget.
\<close>

lemma sample_stepping:
  "run sampleHost ngAfterViewInit (replicate 60 5) =
     ngAfterViewInit\<lparr>renders := 60,
       baselineMeasurements := replicate 60 5,
       baselineFrameTime := Fin 5,
       isMeasuringBaseline := False,
       currentVertexCount := 1000,
       scene := [AmbientLight, DirectionalLight, MeshObject baselineCube,
                 MeshObject (newMesh sampleHost ngAfterViewInit 1000)],
       testMeshes := [baselineCube, newMesh sampleHost ngAfterViewInit 1000],
       randomCalls := 2000,
       nextId := 2,
       logs := [baselineText sampleHost (ngAfterViewInit\<lparr>currentVertexCount := 1000,
                            baselineFrameTime := Fin 5\<rparr>)],
       statusText := baselineText sampleHost (ngAfterViewInit\<lparr>currentVertexCount := 1000,
                            baselineFrameTime := Fin 5\<rparr>)\<rparr>"
  by (subst run_baseline_60) (simp_all add: sum_list_replicate)

lemma sample_stepping_flags:
  "\<not> isMeasuringBaseline (run sampleHost ngAfterViewInit (replicate 60 5))"
  "\<not> isTestStopped (run sampleHost ngAfterViewInit (replicate 60 5))"
  "frameTimes (run sampleHost ngAfterViewInit (replicate 60 5)) = []"
  "currentVertexCount (run sampleHost ngAfterViewInit (replicate 60 5)) = 1000"
  by (simp_all add: sample_stepping) (simp_all add: ngAfterViewInit_eq)

lemma average_single: "average [t] = Fin t"
  by (simp add: average_nonempty)

lemma sample_stopped_flags:
  "\<not> isMeasuringBaseline (run sampleHost ngAfterViewInit (replicate 60 5 @ [20]))"
  "isTestStopped (run sampleHost ngAfterViewInit (replicate 60 5 @ [20]))"
  "currentVertexCount (run sampleHost ngAfterViewInit (replicate 60 5 @ [20])) = 1000"
proof -
  have "js_gt (average (pushFrameTime (frameTimes (run sampleHost ngAfterViewInit (replicate 60 5))) 20)) maxFrameTime"
    by (simp add: sample_stepping_flags pushFrameTime_def average_single maxFrameTime_def)
  from animate_exceed [OF sample_stepping_flags(1,2) this, of sampleHost]
  show "\<not> isMeasuringBaseline (run sampleHost ngAfterViewInit (replicate 60 5 @ [20]))"
  "isTestStopped (run sampleHost ngAfterViewInit (replicate 60 5 @ [20]))"
  "currentVertexCount (run sampleHost ngAfterViewInit (replicate 60 5 @ [20])) = 1000"
    by (simp_all add: run_snoc sample_stepping_flags)
qed

subsection \<open>The status text\<close>

text \<open>
  What the status text is by design: the placeholder of the field initialiser until the
  first report, the joined log after every call of \<^verbatim>\<open>updateStatus\<close>; the pieces of
  \<^verbatim>\<open>copyResults\<close> write no field but \<^verbatim>\<open>statusText\<close>.
\<close>

lemma statusText_placeholder:
  "copyResults_text ngAfterViewInit \<noteq> join_nl (logs ngAfterViewInit)"
  by (simp add: copyResults_text_def ngAfterViewInit_eq)

lemma statusText_after_frames:
  "(logs (run h ngAfterViewInit ts) \<noteq> [] \<longrightarrow>
      copyResults_text (run h ngAfterViewInit ts) = join_nl (logs (run h ngAfterViewInit ts))) \<and>
   (logs (run h ngAfterViewInit ts) = [] \<longrightarrow>
      copyResults_text (run h ngAfterViewInit ts) = ''Initializing...'') \<and>
   fst (copyResults_resolved s) = statusText s \<and>
   (snd (copyResults_resolved s))\<lparr>statusText := statusText s\<rparr> = s \<and>
   (copyResults_rejected s)\<lparr>statusText := statusText s\<rparr> = s \<and>
   (copyResults_timeout originalText s)\<lparr>statusText := statusText s\<rparr> = s"
proof -
  have i: "logs ngAfterViewInit = []" "statusText ngAfterViewInit = ''Initializing...''"
    by (simp_all add: ngAfterViewInit_eq)
  from run_status [of h ngAfterViewInit ts]
  have "(logs (run h ngAfterViewInit ts) = [] \<and>
         statusText (run h ngAfterViewInit ts) = ''Initializing...'') \<or>
        (logs (run h ngAfterViewInit ts) \<noteq> [] \<and>
         statusText (run h ngAfterViewInit ts) = join_nl (logs (run h ngAfterViewInit ts)))"
    unfolding i by blast
  then have a: "(logs (run h ngAfterViewInit ts) \<noteq> [] \<longrightarrow>
      copyResults_text (run h ngAfterViewInit ts) = join_nl (logs (run h ngAfterViewInit ts))) \<and>
   (logs (run h ngAfterViewInit ts) = [] \<longrightarrow>
      copyResults_text (run h ngAfterViewInit ts) = ''Initializing...'')"
    unfolding copyResults_text_def by blast
  have b: "fst (copyResults_resolved s) = statusText s \<and>
   (snd (copyResults_resolved s))\<lparr>statusText := statusText s\<rparr> = s \<and>
   (copyResults_rejected s)\<lparr>statusText := statusText s\<rparr> = s \<and>
   (copyResults_timeout originalText s)\<lparr>statusText := statusText s\<rparr> = s"
    by (simp add: copyResults_resolved_def copyResults_rejected_def copyResults_timeout_def Let_def)
  from a b show ?thesis by blast
qed

text \<open>The state at the end of the run \<open>copyRace\<close>.\<close>

lemma copyRace_eq:
  "copyRace h mid =
     (run h ngAfterViewInit (replicate 60 5))
       \<lparr>renders := 61 + length mid, frameTimes := [20], isTestStopped := True,
        logs :=
          [''=== Baseline Performance ==='' @ [CHR 0x0A] @
           ''Testing with '' @ toLocaleString h 1000 @ '' vertices'' @ [CHR 0x0A] @
           ''Baseline: '' @ toFixed h (Fin 5) 2 @ ''ms'' @ [CHR 0x0A] @
           ''=== Performance Testing ==='',
           ''=== Test Results ==='' @ [CHR 0x0A] @
           ''| Vertices: '' @ toLocaleString h 1000 @
           '' | Baseline: '' @ toFixed h (Fin 5) 2 @
           ''ms | Final: '' @ toFixed h (Fin 20) 2 @
           ''ms | FPS: '' @ toFixed h (Fin 50) 1],
        statusText :=
           ''=== Baseline Performance ==='' @ [CHR 0x0A] @
           ''Testing with '' @ toLocaleString h 1000 @ '' vertices'' @ [CHR 0x0A] @
           ''Baseline: '' @ toFixed h (Fin 5) 2 @ ''ms'' @ [CHR 0x0A] @
           ''=== Performance Testing ===''\<rparr>"
proof -
  let ?s0 = "run h ngAfterViewInit (replicate 60 5)"
  let ?s1 = "snd (copyResults_resolved ?s0)"
  have l: "length (replicate 60 (5::real)) = 60" by simp
  note s0 = run_baseline_60 [OF l, of h]
  have f0: "\<not> isMeasuringBaseline ?s0" "\<not> isTestStopped ?s0" "frameTimes ?s0 = []"
    "renders ?s0 = 60" "currentVertexCount ?s0 = 1000" "baselineFrameTime ?s0 = Fin 5"
    "logs ?s0 = [''=== Baseline Performance ==='' @ [CHR 0x0A] @
           ''Testing with '' @ toLocaleString h 1000 @ '' vertices'' @ [CHR 0x0A] @
           ''Baseline: '' @ toFixed h (Fin 5) 2 @ ''ms'' @ [CHR 0x0A] @
           ''=== Performance Testing ==='']"
    "statusText ?s0 = ''=== Baseline Performance ==='' @ [CHR 0x0A] @
           ''Testing with '' @ toLocaleString h 1000 @ '' vertices'' @ [CHR 0x0A] @
           ''Baseline: '' @ toFixed h (Fin 5) 2 @ ''ms'' @ [CHR 0x0A] @
           ''=== Performance Testing ===''"
    unfolding s0
    by (simp_all add: ngAfterViewInit_eq sum_list_replicate baselineText_def nl_def)
  have s1: "?s1 = ?s0\<lparr>statusText := statusText ?s0 @ [nl, nl] @ ''Copied to clipboard! '' @
               [CHR 0xE2, CHR 0x9C, CHR 0x93]\<rparr>"
    and orig: "fst (copyResults_resolved ?s0) = statusText ?s0"
    by (simp_all add: copyResults_resolved_def Let_def)
  have f1: "\<not> isMeasuringBaseline ?s1" "\<not> isTestStopped ?s1"
    unfolding s1 using f0 by simp_all
  have gt: "js_gt (average (pushFrameTime (frameTimes ?s1) 20)) maxFrameTime"
    unfolding s1 using f0
    by (simp add: pushFrameTime_def average_single maxFrameTime_def)
  note s2 = animate_exceed [OF f1 gt, of h]
  have ex: "animate h ?s1 20 = ?s0
       \<lparr>renders := 61, frameTimes := [20], isTestStopped := True,
        logs := logs ?s0 @ [finalText h ?s0 (Fin 20)],
        statusText := join_nl (logs ?s0 @ [finalText h ?s0 (Fin 20)])\<rparr>"
    unfolding s2 unfolding s1 using f0
    by (simp add: pushFrameTime_def average_single finalText_def)
  have "run h ?s1 (20 # mid) = run h (animate h ?s1 20) mid"
    by (rule run_Cons)
  also have "\<dots> = (animate h ?s1 20)\<lparr>renders := renders (animate h ?s1 20) + length mid\<rparr>"
    unfolding ex using f0 by (intro run_stopped) simp_all
  finally have mid: "run h ?s1 (20 # mid) =
      (animate h ?s1 20)\<lparr>renders := renders (animate h ?s1 20) + length mid\<rparr>" .
  have "copyRace h mid = copyResults_timeout (statusText ?s0) (run h ?s1 (20 # mid))"
    by (simp add: copyRace_def Let_def orig)
  also have "\<dots> = ?s0
       \<lparr>renders := 61 + length mid, frameTimes := [20], isTestStopped := True,
        logs := logs ?s0 @ [finalText h ?s0 (Fin 20)],
        statusText := statusText ?s0\<rparr>"
    unfolding mid unfolding ex using f0
    by (simp add: copyResults_timeout_def)
  finally show ?thesis
    using f0 by (simp add: finalText_def nl_def)
qed

section \<open>The claims\<close>

subsection \<open>The sliding window\<close>

text \<open>
  C2. Pushing \<open>k\<close> samples into the empty window of the load phase (lines 238-241, once
  per frame) leaves exactly \<open>min k 60\<close> samples, namely the last \<open>min k 60\<close> values
  pushed, in order; and the average computed from the window (lines 243-244) is their
  arithmetic mean. The last conjunct says that this push is what a frame of the load
  phase does to \<^verbatim>\<open>frameTimes\<close>.
\<close>

theorem sliding_window_last_60:
  "length (foldl pushFrameTime [] ts) = min (length ts) 60 \<and>
   foldl pushFrameTime [] ts = drop (length ts - min (length ts) 60) ts \<and>
   (ts \<noteq> [] \<longrightarrow>
      average (foldl pushFrameTime [] ts) =
        Fin (sum_list (drop (length ts - min (length ts) 60) ts) / real (min (length ts) 60))) \<and>
   (\<not> isMeasuringBaseline s \<and> \<not> isTestStopped s \<longrightarrow>
      frameTimes (animate h s t) = pushFrameTime (frameTimes s) t)"
proof -
  have "length ts - min (length ts) 60 = length ts - 60"
    by (simp add: min_def)
  then have w: "foldl pushFrameTime [] ts = drop (length ts - min (length ts) 60) ts"
    by (simp add: pushes_window)
  have l: "length (foldl pushFrameTime [] ts) = min (length ts) 60"
    by (simp add: pushes_window)
  have a: "average (foldl pushFrameTime [] ts) =
        Fin (sum_list (drop (length ts - min (length ts) 60) ts) / real (min (length ts) 60))"
    if "ts \<noteq> []"
  proof -
    from that l have "foldl pushFrameTime [] ts \<noteq> []" by (cases ts) auto
    from average_nonempty [OF this] show ?thesis
      unfolding l unfolding w by simp
  qed
  have f: "frameTimes (animate h s t) = pushFrameTime (frameTimes s) t"
    if "\<not> isMeasuringBaseline s" "\<not> isTestStopped s"
  proof (cases "js_gt (average (pushFrameTime (frameTimes s) t)) maxFrameTime")
    case True
    with that show ?thesis by (simp add: animate_exceed)
  next
    case False
    with that show ?thesis by (simp add: animate_grow)
  qed
  from w l a f show ?thesis by blast
qed

theorem sliding_window_last_60_witness:
  "[10, 20, 30] \<noteq> ([] :: real list) \<and>
   foldl pushFrameTime [] [10, 20, 30] = [10, 20, 30] \<and>
   average (foldl pushFrameTime [] [10, 20, 30]) = Fin 20 \<and>
   replicate 60 1 @ [62] \<noteq> ([] :: real list) \<and>
   foldl pushFrameTime [] (replicate 60 1 @ [62]) = replicate 59 1 @ [62] \<and>
   average (foldl pushFrameTime [] (replicate 60 1 @ [62])) = Fin (121 / 60) \<and>
   \<not> isMeasuringBaseline (run sampleHost ngAfterViewInit (replicate 60 5)) \<and>
   \<not> isTestStopped (run sampleHost ngAfterViewInit (replicate 60 5)) \<and>
   frameTimes (animate sampleHost (run sampleHost ngAfterViewInit (replicate 60 5)) 7) = [7]"
proof -
  let ?S = "run sampleHost ngAfterViewInit (replicate 60 5)"
  let ?small = "[10, 20, 30] :: real list"
  let ?big = "replicate 60 1 @ [62] :: real list"
  note small = sliding_window_last_60 [of ?small ?S sampleHost 7]
  note big = sliding_window_last_60 [of ?big ?S sampleHost 7]
  have d1: "drop (length ?small - min (length ?small) 60) ?small = ?small"
    and d2: "drop (length ?big - min (length ?big) 60) ?big = replicate 59 1 @ [62]"
    by simp_all
  have n1: "?small \<noteq> []" and n2: "?big \<noteq> []" by simp_all
  from small have w1: "foldl pushFrameTime [] ?small = ?small"
    unfolding d1 by blast
  from small n1 have "average (foldl pushFrameTime [] ?small) =
      Fin (sum_list ?small / real (min (length ?small) 60))"
    unfolding d1 by blast
  then have a1: "average (foldl pushFrameTime [] ?small) = Fin 20" by simp
  from big have w2: "foldl pushFrameTime [] ?big = replicate 59 1 @ [62]"
    unfolding d2 by blast
  from big n2 have "average (foldl pushFrameTime [] ?big) =
      Fin (sum_list (replicate 59 1 @ [62]) / real (min (length ?big) 60))"
    unfolding d2 by blast
  then have a2: "average (foldl pushFrameTime [] ?big) = Fin (121 / 60)"
    by (simp add: sum_list_replicate)
  from small sample_stepping_flags(1,2)
  have "frameTimes (animate sampleHost ?S 7) = pushFrameTime (frameTimes ?S) 7"
    by blast
  then have f: "frameTimes (animate sampleHost ?S 7) = [7]"
    by (simp add: sample_stepping_flags pushFrameTime_def)
  from n1 w1 a1 n2 w2 a2 sample_stepping_flags(1,2) f show ?thesis by blast
qed

text \<open>
  C7. The claim is that the mean of an empty window fails with \<open>InsufficientData\<close>.
  The expression of the source raises nothing; the first theorem is the counterexample.
\<close>

theorem window_mean_empty_counterexample:
  "window_mean [] \<noteq> Inl InsufficientData"
  by (simp add: window_mean_def)

text \<open>
  C7, as amended: applied to an empty window, the mean raises no error and returns
  \<open>NaN\<close>, the value of \<^verbatim>\<open>0 / 0\<close>.
\<close>

theorem window_mean_empty:
  "window_mean [] = Inr NaN"
  by (simp add: window_mean_def average_def)

text \<open>
  C10. In a frame of the load phase, the window \<open>w\<close> that the average is computed
  from is the window after the push of the frame's sample (and the shift, beyond 60): it
  is not empty, its last element is that sample, and the divisor \<open>length w\<close> is not
  zero. The number that the frame compares with the budget and writes into its report is
  the finite quotient of the sum of \<open>w\<close> by its length, never the \<open>NaN\<close> of an empty
  window.
\<close>

theorem stepping_average_defined:
  fixes h s t
  defines "w \<equiv> pushFrameTime (frameTimes s) t"
  defines "avg \<equiv> sum_list w / real (length w)"
  assumes "\<not> isMeasuringBaseline s" and "\<not> isTestStopped s"
  shows "w = (if 60 < length (frameTimes s @ [t]) then tl (frameTimes s @ [t])
              else frameTimes s @ [t]) \<and>
         w \<noteq> [] \<and> last w = t \<and> real (length w) \<noteq> 0 \<and>
         average w = Fin avg \<and> average w \<noteq> NaN \<and>
         frameTimes (animate h s t) = w \<and>
         isTestStopped (animate h s t) = (16.67 < avg) \<and>
         logs (animate h s t) = logs s @
           [if 16.67 < avg then
              ''=== Test Results ==='' @ [CHR 0x0A] @
              ''| Vertices: '' @ toLocaleString h (currentVertexCount s) @
              '' | Baseline: '' @ toFixed h (baselineFrameTime s) 2 @
              ''ms | Final: '' @ toFixed h (Fin avg) 2 @
              ''ms | FPS: '' @ toFixed h (Fin (1000 / avg)) 1
            else
              ''Vertices: '' @ toLocaleString h (currentVertexCount s + 1000) @
              '' | Baseline: '' @ toFixed h (baselineFrameTime s) 2 @
              ''ms | Current: '' @ toFixed h (Fin avg) 2 @
              ''ms | FPS: '' @ toFixed h (if avg = 0 then PosInf else Fin (1000 / avg)) 1]"
proof -
  have shape: "w = (if 60 < length (frameTimes s @ [t]) then tl (frameTimes s @ [t])
              else frameTimes s @ [t])"
    unfolding w_def by (simp add: pushFrameTime_def Let_def)
  have ne: "w \<noteq> []" unfolding w_def by (rule pushFrameTime_nonempty)
  have la: "last w = t" unfolding w_def by (rule pushFrameTime_last)
  have a: "average w = Fin avg" unfolding avg_def using ne by (rule average_nonempty)
  have g: "js_gt (average w) maxFrameTime = (16.67 < avg)"
    unfolding avg_def using ne by (rule js_gt_average)
  have tick: "frameTimes (animate h s t) = w \<and>
         isTestStopped (animate h s t) = (16.67 < avg) \<and>
         logs (animate h s t) = logs s @
           [if 16.67 < avg then
              ''=== Test Results ==='' @ [CHR 0x0A] @
              ''| Vertices: '' @ toLocaleString h (currentVertexCount s) @
              '' | Baseline: '' @ toFixed h (baselineFrameTime s) 2 @
              ''ms | Final: '' @ toFixed h (Fin avg) 2 @
              ''ms | FPS: '' @ toFixed h (Fin (1000 / avg)) 1
            else
              ''Vertices: '' @ toLocaleString h (currentVertexCount s + 1000) @
              '' | Baseline: '' @ toFixed h (baselineFrameTime s) 2 @
              ''ms | Current: '' @ toFixed h (Fin avg) 2 @
              ''ms | FPS: '' @ toFixed h (if avg = 0 then PosInf else Fin (1000 / avg)) 1]"
  proof (cases "16.67 < avg")
    case True
    then have nz: "avg \<noteq> 0" by simp
    from True g have "js_gt (average (pushFrameTime (frameTimes s) t)) maxFrameTime"
      by (simp add: w_def)
    from animate_exceed [OF assms(3,4) this, of h] a nz True show ?thesis
      by (simp add: w_def finalText_def nl_def)
  next
    case False
    with g have "\<not> js_gt (average (pushFrameTime (frameTimes s) t)) maxFrameTime"
      by (simp add: w_def)
    from animate_grow [OF assms(3,4) this, of h] a False assms(4) show ?thesis
      by (simp add: w_def progressText_def)
  qed
  from ne have "real (length w) \<noteq> 0" by simp
  with shape ne la a tick show ?thesis by simp
qed

theorem stepping_average_defined_witness:
  "\<not> isMeasuringBaseline (run sampleHost ngAfterViewInit (replicate 60 5)) \<and>
   \<not> isTestStopped (run sampleHost ngAfterViewInit (replicate 60 5)) \<and>
   pushFrameTime (frameTimes (run sampleHost ngAfterViewInit (replicate 60 5))) 7 = [7] \<and>
   average (pushFrameTime (frameTimes (run sampleHost ngAfterViewInit (replicate 60 5))) 7) = Fin 7 \<and>
   frameTimes (animate sampleHost (run sampleHost ngAfterViewInit (replicate 60 5)) 7) = [7] \<and>
   \<not> isTestStopped (animate sampleHost (run sampleHost ngAfterViewInit (replicate 60 5)) 7)"
proof -
  let ?S = "run sampleHost ngAfterViewInit (replicate 60 5)"
  note T = stepping_average_defined [OF sample_stepping_flags(1,2), of 7 sampleHost]
  have w: "pushFrameTime (frameTimes ?S) 7 = [7]"
    using T by (simp add: sample_stepping_flags)
  from T have "average (pushFrameTime (frameTimes ?S) 7) =
      Fin (sum_list (pushFrameTime (frameTimes ?S) 7) / real (length (pushFrameTime (frameTimes ?S) 7)))"
    and "frameTimes (animate sampleHost ?S 7) = pushFrameTime (frameTimes ?S) 7"
    and "isTestStopped (animate sampleHost ?S 7) =
      (16.67 < sum_list (pushFrameTime (frameTimes ?S) 7) / real (length (pushFrameTime (frameTimes ?S) 7)))"
    by blast+
  then have "average (pushFrameTime (frameTimes ?S) 7) = Fin 7"
    and "frameTimes (animate sampleHost ?S 7) = [7]"
    and "\<not> isTestStopped (animate sampleHost ?S 7)"
    unfolding w by simp_all
  with sample_stepping_flags(1,2) w show ?thesis by (intro conjI)
qed

subsection \<open>The stopped state\<close>

text \<open>
  C4. Once the test is stopped, any number of further frames changes nothing but the
  count of render calls: the vertex count, the baseline frame time, the window, the log
  and its length, the status text, the meshes and the scene stay as they are, and the
  test stays stopped.
\<close>

theorem stopped_is_idle:
  assumes "\<not> isMeasuringBaseline s" and "isTestStopped s"
  shows "run h s ts = s\<lparr>renders := renders s + length ts\<rparr> \<and>
         currentVertexCount (run h s ts) = currentVertexCount s \<and>
         baselineFrameTime (run h s ts) = baselineFrameTime s \<and>
         frameTimes (run h s ts) = frameTimes s \<and>
         logs (run h s ts) = logs s \<and>
         length (logs (run h s ts)) = length (logs s) \<and>
         statusText (run h s ts) = statusText s \<and>
         testMeshes (run h s ts) = testMeshes s \<and>
         scene (run h s ts) = scene s \<and>
         isTestStopped (run h s ts) \<and> \<not> isMeasuringBaseline (run h s ts)"
  using assms by (simp add: run_stopped)

theorem stopped_is_idle_witness:
  "\<not> isMeasuringBaseline (run sampleHost ngAfterViewInit (replicate 60 5 @ [20])) \<and>
   isTestStopped (run sampleHost ngAfterViewInit (replicate 60 5 @ [20])) \<and>
   currentVertexCount (run sampleHost (run sampleHost ngAfterViewInit (replicate 60 5 @ [20])) [1, 30, 2]) = 1000 \<and>
   renders (run sampleHost (run sampleHost ngAfterViewInit (replicate 60 5 @ [20])) [1, 30, 2]) =
     renders (run sampleHost ngAfterViewInit (replicate 60 5 @ [20])) + 3"
  using stopped_is_idle [OF sample_stopped_flags(1,2), of sampleHost "[1, 30, 2]"]
    sample_stopped_flags
  by simp

subsection \<open>The load phase\<close>

text \<open>
  C1. In a frame of the load phase (the baseline is measured and the test is not stopped),
  let \<open>avg\<close> be the average of the window after the push. If \<open>avg \<le> 16.67\<close>, the
  frame adds exactly 1000 to the vertex count; disposes every mesh but the first of the
  mesh list and removes it from the scene; creates a mesh whose geometry has as many
  positions (on the unit sphere), normals and indices as the new vertex count, and
  attaches it at \<^verbatim>\<open>x = 2\<close>; and appends to the log the progress line, which holds the new
  vertex count, the baseline frame time, \<open>avg\<close> and \<open>1000 / avg\<close>. If
  \<open>16.67 < avg\<close>, the frame stops the test with the vertex count and the meshes
  unchanged and appends the final line; after any further frames the test is still
  stopped with that vertex count and that log.
\<close>

theorem stepping_tick:
  fixes h s t
  defines "w \<equiv> pushFrameTime (frameTimes s) t"
  defines "avg \<equiv> sum_list w / real (length w)"
  defines "s' \<equiv> animate h s t"
  defines "n \<equiv> currentVertexCount s + 1000"
  assumes "\<not> isMeasuringBaseline s" and "\<not> isTestStopped s"
  shows "(avg \<le> 16.67 \<longrightarrow>
            currentVertexCount s' = n \<and>
            disposed s' = disposed s @ rev (drop 1 (testMeshes s)) \<and>
            (\<exists>m B.
               testMeshes s' = take 1 (testMeshes s) @ [m] \<and>
               scene s' = scene_add (MeshObject m)
                 (fold (\<lambda>x. scene_remove (MeshObject x)) (rev (drop 1 (testMeshes s))) (scene s)) \<and>
               mesh_id m = nextId s \<and> position_x m = 2 \<and>
               material m = \<lparr>color = 0xff0000, wireframe = True\<rparr> \<and>
               geometry m = BufferGeometry B \<and>
               length (positions B) = n * 3 \<and> length (normals B) = n * 3 \<and>
               length (indices B) = n \<and>
               (\<forall>i<n.
                  sqrt (positions B ! (i * 3) * positions B ! (i * 3) +
                        positions B ! (i * 3 + 1) * positions B ! (i * 3 + 1) +
                        positions B ! (i * 3 + 2) * positions B ! (i * 3 + 2)) = 1 \<and>
                  normals B ! (i * 3) = Fin (positions B ! (i * 3)) \<and>
                  normals B ! (i * 3 + 1) = Fin (positions B ! (i * 3 + 1)) \<and>
                  normals B ! (i * 3 + 2) = Fin (positions B ! (i * 3 + 2)) \<and>
                  indices B ! i = of_nat i)) \<and>
            logs s' = logs s @
              [''Vertices: '' @ toLocaleString h n @
               '' | Baseline: '' @ toFixed h (baselineFrameTime s) 2 @
               ''ms | Current: '' @ toFixed h (Fin avg) 2 @
               ''ms | FPS: '' @ toFixed h (if avg = 0 then PosInf else Fin (1000 / avg)) 1] \<and>
            statusText s' = join_nl (logs s') \<and>
            frameTimes s' = w \<and>
            baselineFrameTime s' = baselineFrameTime s \<and>
            \<not> isMeasuringBaseline s' \<and> \<not> isTestStopped s') \<and>
         (16.67 < avg \<longrightarrow>
            isTestStopped s' \<and> \<not> isMeasuringBaseline s' \<and>
            currentVertexCount s' = currentVertexCount s \<and>
            testMeshes s' = testMeshes s \<and> scene s' = scene s \<and> disposed s' = disposed s \<and>
            logs s' = logs s @
              [''=== Test Results ==='' @ [CHR 0x0A] @
               ''| Vertices: '' @ toLocaleString h (currentVertexCount s) @
               '' | Baseline: '' @ toFixed h (baselineFrameTime s) 2 @
               ''ms | Final: '' @ toFixed h (Fin avg) 2 @
               ''ms | FPS: '' @ toFixed h (Fin (1000 / avg)) 1] \<and>
            statusText s' = join_nl (logs s') \<and>
            (\<forall>ts. isTestStopped (run h s' ts) \<and> \<not> isMeasuringBaseline (run h s' ts) \<and>
                  currentVertexCount (run h s' ts) = currentVertexCount s \<and>
                  logs (run h s' ts) = logs s'))"
proof -
  have ne: "w \<noteq> []" unfolding w_def by (rule pushFrameTime_nonempty)
  have a: "average w = Fin avg" unfolding avg_def using ne by (rule average_nonempty)
  have g: "js_gt (average w) maxFrameTime = (16.67 < avg)"
    unfolding avg_def using ne by (rule js_gt_average)
  let ?m = "newMesh h s n"
  have grow: "currentVertexCount s' = n \<and>
            disposed s' = disposed s @ rev (drop 1 (testMeshes s)) \<and>
            (testMeshes s' = take 1 (testMeshes s) @ [?m] \<and>
             scene s' = scene_add (MeshObject ?m)
                 (fold (\<lambda>x. scene_remove (MeshObject x)) (rev (drop 1 (testMeshes s))) (scene s))) \<and>
            logs s' = logs s @
              [''Vertices: '' @ toLocaleString h n @
               '' | Baseline: '' @ toFixed h (baselineFrameTime s) 2 @
               ''ms | Current: '' @ toFixed h (Fin avg) 2 @
               ''ms | FPS: '' @ toFixed h (if avg = 0 then PosInf else Fin (1000 / avg)) 1] \<and>
            statusText s' = join_nl (logs s') \<and>
            frameTimes s' = w \<and>
            baselineFrameTime s' = baselineFrameTime s \<and>
            \<not> isMeasuringBaseline s' \<and> \<not> isTestStopped s'"
    if "avg \<le> 16.67"
  proof -
    from that g have "\<not> js_gt (average (pushFrameTime (frameTimes s) t)) maxFrameTime"
      by (simp add: w_def)
    from animate_grow [OF assms(5,6) this, of h] a show ?thesis
      unfolding s'_def n_def using assms(5,6)
      by (simp add: w_def progressText_def)
  qed
  have stop: "isTestStopped s' \<and> \<not> isMeasuringBaseline s' \<and>
            currentVertexCount s' = currentVertexCount s \<and>
            testMeshes s' = testMeshes s \<and> scene s' = scene s \<and> disposed s' = disposed s \<and>
            logs s' = logs s @
              [''=== Test Results ==='' @ [CHR 0x0A] @
               ''| Vertices: '' @ toLocaleString h (currentVertexCount s) @
               '' | Baseline: '' @ toFixed h (baselineFrameTime s) 2 @
               ''ms | Final: '' @ toFixed h (Fin avg) 2 @
               ''ms | FPS: '' @ toFixed h (Fin (1000 / avg)) 1] \<and>
            statusText s' = join_nl (logs s') \<and>
            (\<forall>ts. isTestStopped (run h s' ts) \<and> \<not> isMeasuringBaseline (run h s' ts) \<and>
                  currentVertexCount (run h s' ts) = currentVertexCount s \<and>
                  logs (run h s' ts) = logs s')"
    if "16.67 < avg"
  proof -
    from that have nz: "avg \<noteq> 0" by simp
    from that g have "js_gt (average (pushFrameTime (frameTimes s) t)) maxFrameTime"
      by (simp add: w_def)
    from animate_exceed [OF assms(5,6) this, of h] a nz
    have one: "isTestStopped s' \<and> \<not> isMeasuringBaseline s' \<and>
            currentVertexCount s' = currentVertexCount s \<and>
            testMeshes s' = testMeshes s \<and> scene s' = scene s \<and> disposed s' = disposed s \<and>
            logs s' = logs s @
              [''=== Test Results ==='' @ [CHR 0x0A] @
               ''| Vertices: '' @ toLocaleString h (currentVertexCount s) @
               '' | Baseline: '' @ toFixed h (baselineFrameTime s) 2 @
               ''ms | Final: '' @ toFixed h (Fin avg) 2 @
               ''ms | FPS: '' @ toFixed h (Fin (1000 / avg)) 1] \<and>
            statusText s' = join_nl (logs s')"
      unfolding s'_def using assms(5) by (simp add: w_def finalText_def nl_def)
    then have "run h s' ts = s'\<lparr>renders := renders s' + length ts\<rparr>" for ts
      by (intro run_stopped) simp_all
    with one show ?thesis by simp
  qed
  from grow newMesh_fields [of h s n] newMesh_workload [of h s n]
  have grow': "avg \<le> 16.67 \<Longrightarrow>
            currentVertexCount s' = n \<and>
            disposed s' = disposed s @ rev (drop 1 (testMeshes s)) \<and>
            (\<exists>m B.
               testMeshes s' = take 1 (testMeshes s) @ [m] \<and>
               scene s' = scene_add (MeshObject m)
                 (fold (\<lambda>x. scene_remove (MeshObject x)) (rev (drop 1 (testMeshes s))) (scene s)) \<and>
               mesh_id m = nextId s \<and> position_x m = 2 \<and>
               material m = \<lparr>color = 0xff0000, wireframe = True\<rparr> \<and>
               geometry m = BufferGeometry B \<and>
               length (positions B) = n * 3 \<and> length (normals B) = n * 3 \<and>
               length (indices B) = n \<and>
               (\<forall>i<n.
                  sqrt (positions B ! (i * 3) * positions B ! (i * 3) +
                        positions B ! (i * 3 + 1) * positions B ! (i * 3 + 1) +
                        positions B ! (i * 3 + 2) * positions B ! (i * 3 + 2)) = 1 \<and>
                  normals B ! (i * 3) = Fin (positions B ! (i * 3)) \<and>
                  normals B ! (i * 3 + 1) = Fin (positions B ! (i * 3 + 1)) \<and>
                  normals B ! (i * 3 + 2) = Fin (positions B ! (i * 3 + 2)) \<and>
                  indices B ! i = of_nat i)) \<and>
            logs s' = logs s @
              [''Vertices: '' @ toLocaleString h n @
               '' | Baseline: '' @ toFixed h (baselineFrameTime s) 2 @
               ''ms | Current: '' @ toFixed h (Fin avg) 2 @
               ''ms | FPS: '' @ toFixed h (if avg = 0 then PosInf else Fin (1000 / avg)) 1] \<and>
            statusText s' = join_nl (logs s') \<and>
            frameTimes s' = w \<and>
            baselineFrameTime s' = baselineFrameTime s \<and>
            \<not> isMeasuringBaseline s' \<and> \<not> isTestStopped s'"
    by blast
  from grow' stop show ?thesis by blast
qed

theorem stepping_tick_witness:
  "\<not> isMeasuringBaseline (run sampleHost ngAfterViewInit (replicate 60 5)) \<and>
   \<not> isTestStopped (run sampleHost ngAfterViewInit (replicate 60 5)) \<and>
   sum_list (pushFrameTime (frameTimes (run sampleHost ngAfterViewInit (replicate 60 5))) 5) /
     real (length (pushFrameTime (frameTimes (run sampleHost ngAfterViewInit (replicate 60 5))) 5))
     \<le> 16.67 \<and>
   currentVertexCount (animate sampleHost (run sampleHost ngAfterViewInit (replicate 60 5)) 5) = 2000 \<and>
   (\<exists>m B. testMeshes (animate sampleHost (run sampleHost ngAfterViewInit (replicate 60 5)) 5) =
              [baselineCube, m] \<and>
          geometry m = BufferGeometry B \<and>
          length (positions B) = 6000 \<and> length (normals B) = 6000 \<and> length (indices B) = 2000) \<and>
   logs (animate sampleHost (run sampleHost ngAfterViewInit (replicate 60 5)) 5) =
     logs (run sampleHost ngAfterViewInit (replicate 60 5)) @
     [''Vertices:  | Baseline: ms | Current: ms | FPS: ''] \<and>
   \<not> isTestStopped (animate sampleHost (run sampleHost ngAfterViewInit (replicate 60 5)) 5) \<and>
   16.67 < sum_list (pushFrameTime (frameTimes (run sampleHost ngAfterViewInit (replicate 60 5))) 20) /
     real (length (pushFrameTime (frameTimes (run sampleHost ngAfterViewInit (replicate 60 5))) 20)) \<and>
   isTestStopped (animate sampleHost (run sampleHost ngAfterViewInit (replicate 60 5)) 20) \<and>
   currentVertexCount (animate sampleHost (run sampleHost ngAfterViewInit (replicate 60 5)) 20) = 1000 \<and>
   logs (animate sampleHost (run sampleHost ngAfterViewInit (replicate 60 5)) 20) =
     logs (run sampleHost ngAfterViewInit (replicate 60 5)) @
     [''=== Test Results ==='' @ [CHR 0x0A] @ ''| Vertices:  | Baseline: ms | Final: ms | FPS: ''] \<and>
   currentVertexCount
     (run sampleHost (animate sampleHost (run sampleHost ngAfterViewInit (replicate 60 5)) 20) [1, 2]) = 1000"
proof -
  let ?S = "run sampleHost ngAfterViewInit (replicate 60 5)"
  have le: "sum_list (pushFrameTime (frameTimes ?S) 5) /
     real (length (pushFrameTime (frameTimes ?S) 5)) \<le> 16.67"
    and gt: "16.67 < sum_list (pushFrameTime (frameTimes ?S) 20) /
     real (length (pushFrameTime (frameTimes ?S) 20))"
    by (simp_all add: sample_stepping_flags pushFrameTime_def)
  have tm: "take 1 (testMeshes ?S) = [baselineCube]"
    by (simp add: sample_stepping)
  have fmt: "toLocaleString sampleHost k = []" "toFixed sampleHost x d = []" for k x d
    by (simp_all add: sampleHost_def)
  note five = stepping_tick [OF sample_stepping_flags(1,2), of 5 sampleHost]
  note twenty = stepping_tick [OF sample_stepping_flags(1,2), of 20 sampleHost]
  from five le
  have g1: "currentVertexCount (animate sampleHost ?S 5) = 2000"
    and g3: "logs (animate sampleHost ?S 5) =
       logs ?S @ [''Vertices:  | Baseline: ms | Current: ms | FPS: '']"
    and g4: "\<not> isTestStopped (animate sampleHost ?S 5)"
    by (simp_all add: sample_stepping_flags fmt)
  from five le
  have "\<exists>m B. testMeshes (animate sampleHost ?S 5) = take 1 (testMeshes ?S) @ [m] \<and>
          geometry m = BufferGeometry B \<and>
          length (positions B) = (currentVertexCount ?S + 1000) * 3 \<and>
          length (normals B) = (currentVertexCount ?S + 1000) * 3 \<and>
          length (indices B) = currentVertexCount ?S + 1000"
    by blast
  then have g2: "\<exists>m B. testMeshes (animate sampleHost ?S 5) = [baselineCube, m] \<and>
          geometry m = BufferGeometry B \<and>
          length (positions B) = 6000 \<and> length (normals B) = 6000 \<and> length (indices B) = 2000"
    unfolding tm by (simp add: sample_stepping_flags)
  from twenty gt
  have s1: "isTestStopped (animate sampleHost ?S 20)"
    and s2: "currentVertexCount (animate sampleHost ?S 20) = 1000"
    and s3: "logs (animate sampleHost ?S 20) = logs ?S @
       [''=== Test Results ==='' @ [CHR 0x0A] @ ''| Vertices:  | Baseline: ms | Final: ms | FPS: '']"
    and s4: "currentVertexCount (run sampleHost (animate sampleHost ?S 20) [1, 2]) = 1000"
    by (simp_all add: sample_stepping_flags fmt)
  from sample_stepping_flags(1,2) le g1 g2 g3 g4 gt s1 s2 s3 s4 show ?thesis
    by (intro conjI)
qed

subsection \<open>The baseline phase\<close>

text \<open>
  C3. Starting from the initial state: after fewer than 60 frames the baseline is still
  being measured (no report, no test mesh, vertex count 0, baseline frame time 0); after
  exactly 60 frames the baseline frame time is the arithmetic mean of the 60 samples, the
  vertex count is 1000, the mesh list is the cube and the first test mesh, whose geometry
  has 1000 positions (on the unit sphere), 1000 normals and the indices 0 to 999, the
  component is in the load phase, and the log is the baseline summary, which holds the
  vertex count and the baseline frame time. Sixty samples of the same value \<open>v\<close> give
  the baseline frame time \<open>v\<close>.
\<close>

theorem baseline_phase:
  fixes h ts v
  defines "s' \<equiv> run h ngAfterViewInit ts"
  shows "(length ts < 60 \<longrightarrow>
            isMeasuringBaseline s' \<and> \<not> isTestStopped s' \<and>
            baselineMeasurements s' = ts \<and> baselineFrameTime s' = Fin 0 \<and>
            currentVertexCount s' = 0 \<and>
            testMeshes s' = [baselineCube] \<and>
            scene s' = [AmbientLight, DirectionalLight, MeshObject baselineCube] \<and>
            logs s' = [] \<and> statusText s' = ''Initializing...'') \<and>
         (length ts = 60 \<longrightarrow>
            baselineFrameTime s' = Fin (sum_list ts / 60) \<and>
            currentVertexCount s' = 1000 \<and>
            (\<exists>m B.
               testMeshes s' = [baselineCube, m] \<and>
               scene s' = [AmbientLight, DirectionalLight, MeshObject baselineCube, MeshObject m] \<and>
               mesh_id m = 1 \<and> position_x m = 2 \<and>
               material m = \<lparr>color = 0xff0000, wireframe = True\<rparr> \<and>
               geometry m = BufferGeometry B \<and>
               length (positions B) = 3000 \<and> length (normals B) = 3000 \<and>
               length (indices B) = 1000 \<and>
               (\<forall>i<1000.
                  sqrt (positions B ! (i * 3) * positions B ! (i * 3) +
                        positions B ! (i * 3 + 1) * positions B ! (i * 3 + 1) +
                        positions B ! (i * 3 + 2) * positions B ! (i * 3 + 2)) = 1 \<and>
                  normals B ! (i * 3) = Fin (positions B ! (i * 3)) \<and>
                  normals B ! (i * 3 + 1) = Fin (positions B ! (i * 3 + 1)) \<and>
                  normals B ! (i * 3 + 2) = Fin (positions B ! (i * 3 + 2)) \<and>
                  indices B ! i = of_nat i)) \<and>
            \<not> isMeasuringBaseline s' \<and> \<not> isTestStopped s' \<and>
            frameTimes s' = [] \<and>
            logs s' =
              [''=== Baseline Performance ==='' @ [CHR 0x0A] @
               ''Testing with '' @ toLocaleString h 1000 @ '' vertices'' @ [CHR 0x0A] @
               ''Baseline: '' @ toFixed h (Fin (sum_list ts / 60)) 2 @ ''ms'' @ [CHR 0x0A] @
               ''=== Performance Testing ===''] \<and>
            statusText s' = join_nl (logs s')) \<and>
         baselineFrameTime (run h ngAfterViewInit (replicate 60 v)) = Fin v"
proof -
  have short: "isMeasuringBaseline s' \<and> \<not> isTestStopped s' \<and>
            baselineMeasurements s' = ts \<and> baselineFrameTime s' = Fin 0 \<and>
            currentVertexCount s' = 0 \<and>
            testMeshes s' = [baselineCube] \<and>
            scene s' = [AmbientLight, DirectionalLight, MeshObject baselineCube] \<and>
            logs s' = [] \<and> statusText s' = ''Initializing...''"
    if "length ts < 60"
    unfolding s'_def run_baseline_short [OF that] by (simp add: ngAfterViewInit_eq)
  let ?m = "newMesh h ngAfterViewInit 1000"
  have full: "baselineFrameTime s' = Fin (sum_list ts / 60) \<and>
            currentVertexCount s' = 1000 \<and>
            (testMeshes s' = [baselineCube, ?m] \<and>
             scene s' = [AmbientLight, DirectionalLight, MeshObject baselineCube, MeshObject ?m]) \<and>
            \<not> isMeasuringBaseline s' \<and> \<not> isTestStopped s' \<and>
            frameTimes s' = [] \<and>
            logs s' =
              [''=== Baseline Performance ==='' @ [CHR 0x0A] @
               ''Testing with '' @ toLocaleString h 1000 @ '' vertices'' @ [CHR 0x0A] @
               ''Baseline: '' @ toFixed h (Fin (sum_list ts / 60)) 2 @ ''ms'' @ [CHR 0x0A] @
               ''=== Performance Testing ===''] \<and>
            statusText s' = join_nl (logs s')"
    if "length ts = 60"
    unfolding s'_def run_baseline_60 [OF that]
    by (simp add: ngAfterViewInit_eq baselineText_def nl_def)
  have id: "mesh_id ?m = 1"
    by (simp add: newMesh_def ngAfterViewInit_eq)
  from full id newMesh_fields [of h ngAfterViewInit 1000] newMesh_workload [of h ngAfterViewInit 1000]
  have full': "length ts = 60 \<Longrightarrow>
            baselineFrameTime s' = Fin (sum_list ts / 60) \<and>
            currentVertexCount s' = 1000 \<and>
            (\<exists>m B.
               testMeshes s' = [baselineCube, m] \<and>
               scene s' = [AmbientLight, DirectionalLight, MeshObject baselineCube, MeshObject m] \<and>
               mesh_id m = 1 \<and> position_x m = 2 \<and>
               material m = \<lparr>color = 0xff0000, wireframe = True\<rparr> \<and>
               geometry m = BufferGeometry B \<and>
               length (positions B) = 3000 \<and> length (normals B) = 3000 \<and>
               length (indices B) = 1000 \<and>
               (\<forall>i<1000.
                  sqrt (positions B ! (i * 3) * positions B ! (i * 3) +
                        positions B ! (i * 3 + 1) * positions B ! (i * 3 + 1) +
                        positions B ! (i * 3 + 2) * positions B ! (i * 3 + 2)) = 1 \<and>
                  normals B ! (i * 3) = Fin (positions B ! (i * 3)) \<and>
                  normals B ! (i * 3 + 1) = Fin (positions B ! (i * 3 + 1)) \<and>
                  normals B ! (i * 3 + 2) = Fin (positions B ! (i * 3 + 2)) \<and>
                  indices B ! i = of_nat i)) \<and>
            \<not> isMeasuringBaseline s' \<and> \<not> isTestStopped s' \<and>
            frameTimes s' = [] \<and>
            logs s' =
              [''=== Baseline Performance ==='' @ [CHR 0x0A] @
               ''Testing with '' @ toLocaleString h 1000 @ '' vertices'' @ [CHR 0x0A] @
               ''Baseline: '' @ toFixed h (Fin (sum_list ts / 60)) 2 @ ''ms'' @ [CHR 0x0A] @
               ''=== Performance Testing ===''] \<and>
            statusText s' = join_nl (logs s')"
    by (simp del: One_nat_def)
  have "length (replicate 60 v) = 60" by simp
  from run_baseline_60 [OF this, of h]
  have same: "baselineFrameTime (run h ngAfterViewInit (replicate 60 v)) = Fin v"
    by (simp add: sum_list_replicate)
  from short full' same show ?thesis by blast
qed

theorem baseline_phase_witness:
  "length (replicate 59 (5::real)) < 60 \<and>
   isMeasuringBaseline (run sampleHost ngAfterViewInit (replicate 59 5)) \<and>
   logs (run sampleHost ngAfterViewInit (replicate 59 5)) = [] \<and>
   length (replicate 60 (5::real)) = 60 \<and>
   baselineFrameTime (run sampleHost ngAfterViewInit (replicate 60 5)) = Fin 5 \<and>
   currentVertexCount (run sampleHost ngAfterViewInit (replicate 60 5)) = 1000 \<and>
   (\<exists>m B. testMeshes (run sampleHost ngAfterViewInit (replicate 60 5)) = [baselineCube, m] \<and>
          geometry m = BufferGeometry B \<and>
          length (positions B) = 3000 \<and> length (normals B) = 3000 \<and> length (indices B) = 1000) \<and>
   logs (run sampleHost ngAfterViewInit (replicate 60 5)) =
     [''=== Baseline Performance ==='' @ [CHR 0x0A] @
      ''Testing with  vertices'' @ [CHR 0x0A] @
      ''Baseline: ms'' @ [CHR 0x0A] @
      ''=== Performance Testing ===''] \<and>
   \<not> isMeasuringBaseline (run sampleHost ngAfterViewInit (replicate 60 5))"
proof -
  have l59: "length (replicate 59 (5::real)) < 60" and l60: "length (replicate 60 (5::real)) = 60"
    by simp_all
  have fmt: "toLocaleString sampleHost k = []" "toFixed sampleHost x d = []" for k x d
    by (simp_all add: sampleHost_def)
  note short = baseline_phase [of "replicate 59 5" sampleHost 5]
  note full = baseline_phase [of "replicate 60 5" sampleHost 5]
  from short l59
  have a: "isMeasuringBaseline (run sampleHost ngAfterViewInit (replicate 59 5))"
    and b: "logs (run sampleHost ngAfterViewInit (replicate 59 5)) = []"
    by blast+
  from full l60
  have c: "baselineFrameTime (run sampleHost ngAfterViewInit (replicate 60 5)) = Fin 5"
    and d: "currentVertexCount (run sampleHost ngAfterViewInit (replicate 60 5)) = 1000"
    and e: "\<not> isMeasuringBaseline (run sampleHost ngAfterViewInit (replicate 60 5))"
    by blast+
  from full l60
  have f: "\<exists>m B. testMeshes (run sampleHost ngAfterViewInit (replicate 60 5)) = [baselineCube, m] \<and>
          geometry m = BufferGeometry B \<and>
          length (positions B) = 3000 \<and> length (normals B) = 3000 \<and> length (indices B) = 1000"
    by blast
  from full l60
  have "logs (run sampleHost ngAfterViewInit (replicate 60 5)) =
     [''=== Baseline Performance ==='' @ [CHR 0x0A] @
      ''Testing with '' @ toLocaleString sampleHost 1000 @ '' vertices'' @ [CHR 0x0A] @
      ''Baseline: '' @ toFixed sampleHost (Fin (sum_list (replicate 60 5) / 60)) 2 @ ''ms'' @ [CHR 0x0A] @
      ''=== Performance Testing ==='']"
    by blast
  then have g: "logs (run sampleHost ngAfterViewInit (replicate 60 5)) =
     [''=== Baseline Performance ==='' @ [CHR 0x0A] @
      ''Testing with  vertices'' @ [CHR 0x0A] @
      ''Baseline: ms'' @ [CHR 0x0A] @
      ''=== Performance Testing ==='']"
    by (simp add: fmt)
  from l59 a b l60 c d f g e show ?thesis by (intro conjI)
qed

text \<open>
  C5. Over a session that starts in the initial state, \<^verbatim>\<open>baselineFrameTime\<close> keeps its
  initial value 0 while the baseline is measured (fewer than 60 frames), and from the
  60th frame on it is the mean of the first 60 samples, whatever the later frames are:
  it changes in the frame that ends the baseline phase and in no other. In any state
  outside the baseline phase, a frame leaves it as it is.
\<close>

theorem baselineFrameTime_written_once:
  "(length ts < 60 \<longrightarrow>
      isMeasuringBaseline (run h ngAfterViewInit ts) \<and>
      baselineFrameTime (run h ngAfterViewInit ts) = Fin 0) \<and>
   (60 \<le> length ts \<longrightarrow>
      \<not> isMeasuringBaseline (run h ngAfterViewInit ts) \<and>
      baselineFrameTime (run h ngAfterViewInit ts) = Fin (sum_list (take 60 ts) / 60)) \<and>
   (\<not> isMeasuringBaseline s \<longrightarrow>
      \<not> isMeasuringBaseline (animate h s t) \<and>
      baselineFrameTime (animate h s t) = baselineFrameTime s)"
proof -
  have short: "isMeasuringBaseline (run h ngAfterViewInit ts) \<and>
      baselineFrameTime (run h ngAfterViewInit ts) = Fin 0"
    if "length ts < 60"
    unfolding run_baseline_short [OF that] by (simp add: ngAfterViewInit_eq)
  have long: "\<not> isMeasuringBaseline (run h ngAfterViewInit ts) \<and>
      baselineFrameTime (run h ngAfterViewInit ts) = Fin (sum_list (take 60 ts) / 60)"
    if "60 \<le> length ts"
  proof -
    from that have l: "length (take 60 ts) = 60" by simp
    from run_baseline_60 [OF l, of h]
    have at60: "\<not> isMeasuringBaseline (run h ngAfterViewInit (take 60 ts))"
      "baselineFrameTime (run h ngAfterViewInit (take 60 ts)) = Fin (sum_list (take 60 ts) / 60)"
      by simp_all
    have "run h ngAfterViewInit ts = run h (run h ngAfterViewInit (take 60 ts)) (drop 60 ts)"
      using run_append [of h ngAfterViewInit "take 60 ts" "drop 60 ts"] by simp
    with run_not_baseline [OF at60(1), of h "drop 60 ts"] at60(2) show ?thesis by simp
  qed
  from short long animate_not_baseline [of s h t] show ?thesis by blast
qed

theorem baselineFrameTime_written_once_witness:
  "length ([] :: real list) < 60 \<and>
   baselineFrameTime (run sampleHost ngAfterViewInit []) = Fin 0 \<and>
   60 \<le> length (replicate 60 (5::real) @ [7, 20, 9]) \<and>
   baselineFrameTime (run sampleHost ngAfterViewInit (replicate 60 5 @ [7, 20, 9])) = Fin 5 \<and>
   \<not> isMeasuringBaseline (run sampleHost ngAfterViewInit (replicate 60 5)) \<and>
   baselineFrameTime (animate sampleHost (run sampleHost ngAfterViewInit (replicate 60 5)) 7) = Fin 5"
  using baselineFrameTime_written_once [of "[]" sampleHost "run sampleHost ngAfterViewInit (replicate 60 5)" 7]
    baselineFrameTime_written_once [of "replicate 60 5 @ [7, 20, 9]" sampleHost "run sampleHost ngAfterViewInit (replicate 60 5)" 7]
    sample_stepping_flags(1)
  by (simp add: sum_list_replicate sample_stepping)

subsection \<open>Meshes\<close>

text \<open>
  C6. In every state that the frames reach from the initial state, the mesh list is the
  cube alone or the cube and one test mesh; the cube is in the scene and has not been
  disposed. In a frame that grows the load, \<^verbatim>\<open>cleanupMeshes\<close> disposes the old test
  mesh and takes it out of the list and of the scene, leaving the cube; after the frame
  the list is the cube and the new mesh, which is neither the old one nor disposed.
\<close>

theorem one_test_mesh:
  fixes h ts t
  defines "s \<equiv> run h ngAfterViewInit ts"
  defines "w \<equiv> pushFrameTime (frameTimes s) t"
  defines "new \<equiv> newMesh h s (currentVertexCount s + 1000)"
  shows "(testMeshes s = [baselineCube] \<or>
            (\<exists>m. testMeshes s = [baselineCube, m] \<and> m \<noteq> baselineCube)) \<and>
         MeshObject baselineCube \<in> set (scene s) \<and>
         baselineCube \<notin> set (disposed s) \<and>
         (\<not> isMeasuringBaseline s \<and> \<not> isTestStopped s \<and>
          sum_list w / real (length w) \<le> 16.67 \<longrightarrow>
            (\<exists>old. testMeshes s = [baselineCube, old] \<and>
               testMeshes (cleanupMeshes s) = [baselineCube] \<and>
               disposed (cleanupMeshes s) = disposed s @ [old] \<and>
               scene (cleanupMeshes s) =
                 [AmbientLight, DirectionalLight, MeshObject baselineCube] \<and>
               testMeshes (animate h s t) = [baselineCube, new] \<and>
               scene (animate h s t) =
                 [AmbientLight, DirectionalLight, MeshObject baselineCube, MeshObject new] \<and>
               disposed (animate h s t) = disposed s @ [old] \<and>
               new \<noteq> old \<and> new \<noteq> baselineCube \<and> new \<notin> set (disposed (animate h s t))))"
proof -
  have own: "ownership s"
    unfolding s_def by (rule ownership_run [OF ownership_init])
  have nd: "baselineCube \<notin> set (disposed s)"
    using ownership_disposed [OF own, of baselineCube] by (auto simp: mesh_id_baselineCube)
  have fresh: "new \<notin> set (disposed s)"
    using ownership_disposed [OF own, of new] by (auto simp: new_def mesh_id_newMesh)
  have nc: "new \<noteq> baselineCube"
    using ownership_nextId [OF own] mesh_id_newMesh [of h s "currentVertexCount s + 1000"]
    by (auto simp: new_def mesh_id_baselineCube)
  from own show ?thesis
  proof (cases rule: ownership_cases)
    case baseline
    with nd show ?thesis by simp
  next
    case (test m)
    have mc: "m \<noteq> baselineCube"
      using test(3) by (auto simp: mesh_id_baselineCube)
    have nm: "new \<noteq> m"
      using test(4) mesh_id_newMesh [of h s "currentVertexCount s + 1000"]
      by (auto simp: new_def)
    have cl: "testMeshes (cleanupMeshes s) = [baselineCube] \<and>
               disposed (cleanupMeshes s) = disposed s @ [m] \<and>
               scene (cleanupMeshes s) =
                 [AmbientLight, DirectionalLight, MeshObject baselineCube]"
      using test mc by (simp add: cleanupMeshes_eq scene_remove_def)
    have step: "testMeshes (animate h s t) = [baselineCube, new] \<and>
               scene (animate h s t) =
                 [AmbientLight, DirectionalLight, MeshObject baselineCube, MeshObject new] \<and>
               disposed (animate h s t) = disposed s @ [m]"
      if "\<not> isTestStopped s" "sum_list w / real (length w) \<le> 16.67"
    proof -
      have "w \<noteq> []" unfolding w_def by (rule pushFrameTime_nonempty)
      from js_gt_average [OF this] that(2)
      have "\<not> js_gt (average (pushFrameTime (frameTimes s) t)) maxFrameTime"
        by (simp add: w_def)
      from animate_grow [OF test(1) that(1) this, of h] test mc nc
      show ?thesis
        by (simp add: scene_add_def scene_remove_def new_def)
    qed
    from test mc nd cl step nm nc fresh show ?thesis by auto
  qed
qed

theorem one_test_mesh_witness:
  "\<not> isMeasuringBaseline (run sampleHost ngAfterViewInit (replicate 60 5)) \<and>
   \<not> isTestStopped (run sampleHost ngAfterViewInit (replicate 60 5)) \<and>
   sum_list (pushFrameTime (frameTimes (run sampleHost ngAfterViewInit (replicate 60 5))) 5) /
     real (length (pushFrameTime (frameTimes (run sampleHost ngAfterViewInit (replicate 60 5))) 5))
     \<le> 16.67 \<and>
   testMeshes (animate sampleHost (run sampleHost ngAfterViewInit (replicate 60 5)) 5) =
     [baselineCube, newMesh sampleHost (run sampleHost ngAfterViewInit (replicate 60 5)) 2000] \<and>
   disposed (animate sampleHost (run sampleHost ngAfterViewInit (replicate 60 5)) 5) =
     [newMesh sampleHost ngAfterViewInit 1000]"
proof -
  have hyp: "\<not> isMeasuringBaseline (run sampleHost ngAfterViewInit (replicate 60 5)) \<and>
   \<not> isTestStopped (run sampleHost ngAfterViewInit (replicate 60 5)) \<and>
   sum_list (pushFrameTime (frameTimes (run sampleHost ngAfterViewInit (replicate 60 5))) 5) /
     real (length (pushFrameTime (frameTimes (run sampleHost ngAfterViewInit (replicate 60 5))) 5))
     \<le> 16.67"
    by (simp add: sample_stepping_flags pushFrameTime_def)
  have st: "testMeshes (run sampleHost ngAfterViewInit (replicate 60 5)) =
              [baselineCube, newMesh sampleHost ngAfterViewInit 1000]"
     "disposed (run sampleHost ngAfterViewInit (replicate 60 5)) = []"
    by (simp_all add: sample_stepping) (simp_all add: ngAfterViewInit_eq)
  from one_test_mesh [of sampleHost "replicate 60 5" 5] hyp st
  show ?thesis by (auto simp: sample_stepping_flags)
qed

text \<open>
  C8. For every \<open>n\<close>, with the values of \<^verbatim>\<open>Math.random()\<close> in \<open>[0, 1)\<close>: the mesh
  created for the vertex count \<open>n\<close> has \<open>n\<close> positions (three coordinates each),
  \<open>n\<close> normals and \<open>n\<close> indices. Vertex \<open>i\<close> is built from \<open>theta\<close> in
  \<open>[0, 2 pi)\<close> and \<open>phi = arccos (2 u - 1)\<close> in \<open>[0, pi]\<close>, its position is at
  Euclidean distance 1 from the origin, its normal is the position itself (the radial
  direction, of unit length), and its index is \<open>i\<close>; as numbers the indices are
  \<open>0, ..., n - 1\<close> in order (an element of a \<^verbatim>\<open>Uint32Array\<close> holds every number
  below \<open>2^32\<close>). Arithmetic is exact in the model.
\<close>

theorem createTestMesh_structure:
  fixes h s n
  defines "B \<equiv> createTestMesh_buffers (random h) (randomCalls s) n"
  assumes rnd: "\<forall>j. 0 \<le> random h j \<and> random h j < 1"
  shows "geometry (fst (createTestMesh h s n)) = BufferGeometry B \<and>
         length (positions B) = n * 3 \<and> length (normals B) = n * 3 \<and>
         length (indices B) = n \<and>
         (\<forall>i<n.
            0 \<le> vertexTheta (random h) (randomCalls s) i \<and>
            vertexTheta (random h) (randomCalls s) i < 2 * pi \<and>
            0 \<le> vertexPhi (random h) (randomCalls s) i \<and>
            vertexPhi (random h) (randomCalls s) i \<le> pi \<and>
            (positions B ! (i * 3), positions B ! (i * 3 + 1), positions B ! (i * 3 + 2)) =
              vertexPosition (random h) (randomCalls s) i \<and>
            sqrt (positions B ! (i * 3) * positions B ! (i * 3) +
                  positions B ! (i * 3 + 1) * positions B ! (i * 3 + 1) +
                  positions B ! (i * 3 + 2) * positions B ! (i * 3 + 2)) = 1 \<and>
            normals B ! (i * 3) = Fin (positions B ! (i * 3)) \<and>
            normals B ! (i * 3 + 1) = Fin (positions B ! (i * 3 + 1)) \<and>
            normals B ! (i * 3 + 2) = Fin (positions B ! (i * 3 + 2)) \<and>
            indices B ! i = of_nat i) \<and>
         (n \<le> 2 ^ 32 \<longrightarrow> map unat (indices B) = [0..<n])"
proof -
  note e = createTestMesh_buffers_entries [of "random h" "randomCalls s" n, folded B_def]
  have g: "geometry (fst (createTestMesh h s n)) = BufferGeometry B"
    by (simp add: createTestMesh_def B_def)
  have v: "0 \<le> vertexTheta (random h) (randomCalls s) i \<and>
            vertexTheta (random h) (randomCalls s) i < 2 * pi \<and>
            0 \<le> vertexPhi (random h) (randomCalls s) i \<and>
            vertexPhi (random h) (randomCalls s) i \<le> pi \<and>
            (positions B ! (i * 3), positions B ! (i * 3 + 1), positions B ! (i * 3 + 2)) =
              vertexPosition (random h) (randomCalls s) i \<and>
            sqrt (positions B ! (i * 3) * positions B ! (i * 3) +
                  positions B ! (i * 3 + 1) * positions B ! (i * 3 + 1) +
                  positions B ! (i * 3 + 2) * positions B ! (i * 3 + 2)) = 1 \<and>
            normals B ! (i * 3) = Fin (positions B ! (i * 3)) \<and>
            normals B ! (i * 3 + 1) = Fin (positions B ! (i * 3 + 1)) \<and>
            normals B ! (i * 3 + 2) = Fin (positions B ! (i * 3 + 2)) \<and>
            indices B ! i = of_nat i"
    if "i < n" for i
  proof -
    from e that have p:
      "positions B ! (i * 3) = fst (vertexPosition (random h) (randomCalls s) i)"
      "positions B ! (i * 3 + 1) = fst (snd (vertexPosition (random h) (randomCalls s) i))"
      "positions B ! (i * 3 + 2) = snd (snd (vertexPosition (random h) (randomCalls s) i))"
      "normals B ! (i * 3) = Fin (fst (vertexPosition (random h) (randomCalls s) i))"
      "normals B ! (i * 3 + 1) = Fin (fst (snd (vertexPosition (random h) (randomCalls s) i)))"
      "normals B ! (i * 3 + 2) = Fin (snd (snd (vertexPosition (random h) (randomCalls s) i)))"
      "indices B ! i = of_nat i"
      by blast+
    from rnd have r: "0 \<le> random h (randomCalls s + 2 * i)" "random h (randomCalls s + 2 * i) < 1"
      "0 \<le> random h (randomCalls s + 2 * i + 1)" "random h (randomCalls s + 2 * i + 1) < 1"
      by blast+
    from r vertexTheta_range [of "random h" "randomCalls s" i]
      vertexPhi_range [of "random h" "randomCalls s" i]
      vertexPosition_unit [of "random h" "randomCalls s" i]
    show ?thesis unfolding p by simp
  qed
  have u: "map unat (indices B) = [0..<n]" if "n \<le> 2 ^ 32"
    using that e by (intro unat_indices) blast+
  from g e v u show ?thesis by blast
qed

theorem createTestMesh_structure_witness:
  "(\<forall>j. 0 \<le> random sampleHost j \<and> random sampleHost j < 1) \<and>
   (2::nat) \<le> 2 ^ 32 \<and>
   length (positions (createTestMesh_buffers (random sampleHost) (randomCalls ngAfterViewInit) 2)) = 6 \<and>
   positions (createTestMesh_buffers (random sampleHost) (randomCalls ngAfterViewInit) 2) ! 0 = - 1 \<and>
   normals (createTestMesh_buffers (random sampleHost) (randomCalls ngAfterViewInit) 2) ! 5 = Fin 0 \<and>
   map unat (indices (createTestMesh_buffers (random sampleHost) (randomCalls ngAfterViewInit) 2)) = [0, 1]"
proof -
  have p: "vertexPosition (random sampleHost) k i = (- 1, 0, 0)" for k i
    by (simp add: vertexPosition_def vertexPhi_def vertexTheta_def sampleHost_def)
  have two: "(\<forall>i<2::nat. P i) = (P 0 \<and> P 1)" for P
    by (auto simp: less_Suc_eq numeral_2_eq_2)
  from createTestMesh_structure [OF sampleHost_random, of ngAfterViewInit 2]
  show ?thesis
    using sampleHost_random
    by (simp add: p two upt_rec)
qed

subsection \<open>The exported text\<close>

text \<open>
  C9. The claim is that in every reachable state the exported text is the log joined by
  line feeds. The code breaks it after the run \<open>copyRace\<close>: the exported text was the
  joined log when the button was clicked; the frame of 20 ms stops the test and logs the
  final line; the timer of \<^verbatim>\<open>copyResults\<close> then writes back the text it remembered,
  which lacks that line; and no stopped frame calls \<^verbatim>\<open>updateStatus\<close> again. For
  every host, all frames \<open>mid\<close> before the timer and all frames \<open>ts\<close> after it, the
  log holds the baseline summary and the final line and the exported text is the
  baseline summary alone.
\<close>

theorem export_loses_final_report:
  "\<forall>h mid ts.
     copyResults_text (run h ngAfterViewInit (replicate 60 5)) =
       join_nl (logs (run h ngAfterViewInit (replicate 60 5))) \<and>
     isTestStopped (run h (copyRace h mid) ts) \<and>
     logs (run h (copyRace h mid) ts) =
       [''=== Baseline Performance ==='' @ [CHR 0x0A] @
        ''Testing with '' @ toLocaleString h 1000 @ '' vertices'' @ [CHR 0x0A] @
        ''Baseline: '' @ toFixed h (Fin 5) 2 @ ''ms'' @ [CHR 0x0A] @
        ''=== Performance Testing ==='',
        ''=== Test Results ==='' @ [CHR 0x0A] @
        ''| Vertices: '' @ toLocaleString h 1000 @
        '' | Baseline: '' @ toFixed h (Fin 5) 2 @
        ''ms | Final: '' @ toFixed h (Fin 20) 2 @
        ''ms | FPS: '' @ toFixed h (Fin 50) 1] \<and>
     copyResults_text (run h (copyRace h mid) ts) =
        ''=== Baseline Performance ==='' @ [CHR 0x0A] @
        ''Testing with '' @ toLocaleString h 1000 @ '' vertices'' @ [CHR 0x0A] @
        ''Baseline: '' @ toFixed h (Fin 5) 2 @ ''ms'' @ [CHR 0x0A] @
        ''=== Performance Testing ==='' \<and>
     copyResults_text (run h (copyRace h mid) ts) \<noteq> join_nl (logs (run h (copyRace h mid) ts))"
proof (intro allI)
  fix h mid ts
  let ?s0 = "run h ngAfterViewInit (replicate 60 5)"
  have l: "length (replicate 60 (5::real)) = 60" by simp
  have before: "copyResults_text ?s0 = join_nl (logs ?s0)"
    unfolding run_baseline_60 [OF l, of h] by (simp add: copyResults_text_def)
  have st: "\<not> isMeasuringBaseline (copyRace h mid)" "isTestStopped (copyRace h mid)"
    unfolding copyRace_eq run_baseline_60 [OF l, of h] by simp_all
  have r: "run h (copyRace h mid) ts = (copyRace h mid)\<lparr>renders := renders (copyRace h mid) + length ts\<rparr>"
    using st by (rule run_stopped)
  have lg: "logs (copyRace h mid) =
       [''=== Baseline Performance ==='' @ [CHR 0x0A] @
        ''Testing with '' @ toLocaleString h 1000 @ '' vertices'' @ [CHR 0x0A] @
        ''Baseline: '' @ toFixed h (Fin 5) 2 @ ''ms'' @ [CHR 0x0A] @
        ''=== Performance Testing ==='',
        ''=== Test Results ==='' @ [CHR 0x0A] @
        ''| Vertices: '' @ toLocaleString h 1000 @
        '' | Baseline: '' @ toFixed h (Fin 5) 2 @
        ''ms | Final: '' @ toFixed h (Fin 20) 2 @
        ''ms | FPS: '' @ toFixed h (Fin 50) 1]"
    and tx: "statusText (copyRace h mid) =
        ''=== Baseline Performance ==='' @ [CHR 0x0A] @
        ''Testing with '' @ toLocaleString h 1000 @ '' vertices'' @ [CHR 0x0A] @
        ''Baseline: '' @ toFixed h (Fin 5) 2 @ ''ms'' @ [CHR 0x0A] @
        ''=== Performance Testing ===''"
    unfolding copyRace_eq by simp_all
  have ne: "statusText (copyRace h mid) \<noteq> join_nl (logs (copyRace h mid))"
    unfolding lg tx by (simp add: nl_def)
  show "copyResults_text ?s0 = join_nl (logs ?s0) \<and>
     isTestStopped (run h (copyRace h mid) ts) \<and>
     logs (run h (copyRace h mid) ts) =
       [''=== Baseline Performance ==='' @ [CHR 0x0A] @
        ''Testing with '' @ toLocaleString h 1000 @ '' vertices'' @ [CHR 0x0A] @
        ''Baseline: '' @ toFixed h (Fin 5) 2 @ ''ms'' @ [CHR 0x0A] @
        ''=== Performance Testing ==='',
        ''=== Test Results ==='' @ [CHR 0x0A] @
        ''| Vertices: '' @ toLocaleString h 1000 @
        '' | Baseline: '' @ toFixed h (Fin 5) 2 @
        ''ms | Final: '' @ toFixed h (Fin 20) 2 @
        ''ms | FPS: '' @ toFixed h (Fin 50) 1] \<and>
     copyResults_text (run h (copyRace h mid) ts) =
        ''=== Baseline Performance ==='' @ [CHR 0x0A] @
        ''Testing with '' @ toLocaleString h 1000 @ '' vertices'' @ [CHR 0x0A] @
        ''Baseline: '' @ toFixed h (Fin 5) 2 @ ''ms'' @ [CHR 0x0A] @
        ''=== Performance Testing ==='' \<and>
     copyResults_text (run h (copyRace h mid) ts) \<noteq> join_nl (logs (run h (copyRace h mid) ts))"
    unfolding r copyResults_text_def using before st lg tx ne
    by (simp add: copyResults_text_def)
qed

end
